theory Spec2Isabelle
  imports Main "HOL-Library.Multiset" "HOL-Library.Sublist"
begin

section \<open>JavaScript strings and values\<close>

text \<open>
  The extension is JavaScript. A JavaScript string is modelled as a \<^typ>\<open>string\<close> holding
  its UTF-8 bytes: every operation the extension performs on text (concatenation, equality
  with an ASCII literal, replacement of the ASCII characters \<open>&\<close>, \<open><\<close>, \<open>>\<close>, the two
  quotes, and trimming of white space) acts on whole code points, and no UTF-8 encoding of a
  non-ASCII code point contains an ASCII byte.
\<close>

definition digit_char :: "nat \<Rightarrow> char" where
  "digit_char d = ''0123456789'' ! d"

function decimal :: "nat \<Rightarrow> string" where
  "decimal n = (if n < 10 then [digit_char n] else decimal (n div 10) @ [digit_char (n mod 10)])"
  by pat_completeness auto
termination
  by (relation "measure id") auto

text \<open>\<open>String(n)\<close> (and \<open>`${n}`\<close>) for an integer \<open>n\<close>.\<close>

definition number_text :: "int \<Rightarrow> string" where
  "number_text i = (if i < 0 then CHR ''-'' # decimal (nat (- i)) else decimal (nat i))"

text \<open>
  The values that reading a property of one of the extension's two lookup tables can give.
  Both tables are object literals with string values, so they inherit from
  \<open>Object.prototype\<close>: \<open>table[key]\<close> is the table's own value when \<open>key\<close> is one of its
  keys, the inherited member when \<open>key\<close> names a property of \<open>Object.prototype\<close>
  (a function, or for \<open>__proto__\<close> the prototype object itself), and \<open>undefined\<close> otherwise.
\<close>

datatype js_value = Undefined | Str string | Inherited string

definition object_prototype_keys :: "string list" where
  "object_prototype_keys =
     [''constructor'', ''hasOwnProperty'', ''isPrototypeOf'', ''propertyIsEnumerable'',
      ''toLocaleString'', ''toString'', ''valueOf'', ''__defineGetter__'',
      ''__defineSetter__'', ''__lookupGetter__'', ''__lookupSetter__'', ''__proto__'']"

definition js_get :: "(string \<times> string) list \<Rightarrow> string \<Rightarrow> js_value" where
  "js_get table key =
     (case map_of table key of
        Some v \<Rightarrow> Str v
      | None \<Rightarrow> if key \<in> set object_prototype_keys then Inherited key else Undefined)"

text \<open>Truthiness, as \<open>!x\<close> and \<open>x || y\<close> test it: functions and objects are truthy.\<close>

fun truthy :: "js_value \<Rightarrow> bool" where
  "truthy Undefined = False"
| "truthy (Str s) = (s \<noteq> [])"
| "truthy (Inherited k) = True"

definition js_or :: "js_value \<Rightarrow> js_value \<Rightarrow> js_value" where
  "js_or a b = (if truthy a then a else b)"

text \<open>
  The text a value contributes to a template literal. A built-in function prints as
  \<open>function name() { [native code] }\<close>, \<open>Object.prototype\<close> as \<open>[object Object]\<close>.
\<close>

fun template_text :: "js_value \<Rightarrow> string" where
  "template_text Undefined = ''undefined''"
| "template_text (Str s) = s"
| "template_text (Inherited k) =
     (if k = ''__proto__'' then ''[object Object]''
      else ''function '' @ (if k = ''constructor'' then ''Object'' else k) @ ''() { [native code] }'')"

subsection \<open>String.prototype.trim\<close>

text \<open>
  The UTF-8 encodings of the code points \<open>trim\<close> removes: ECMAScript's WhiteSpace
  (TAB, VT, FF, ZWNBSP and the category Zs) and LineTerminator (LF, CR, LS, PS).
\<close>

definition js_whitespace :: "string list" where
  "js_whitespace =
     [[CHR 0x09], [CHR 0x0A], [CHR 0x0B], [CHR 0x0C], [CHR 0x0D], [CHR 0x20],
      [CHR 0xC2, CHR 0xA0], [CHR 0xE1, CHR 0x9A, CHR 0x80],
      [CHR 0xE2, CHR 0x80, CHR 0x80], [CHR 0xE2, CHR 0x80, CHR 0x81],
      [CHR 0xE2, CHR 0x80, CHR 0x82], [CHR 0xE2, CHR 0x80, CHR 0x83],
      [CHR 0xE2, CHR 0x80, CHR 0x84], [CHR 0xE2, CHR 0x80, CHR 0x85],
      [CHR 0xE2, CHR 0x80, CHR 0x86], [CHR 0xE2, CHR 0x80, CHR 0x87],
      [CHR 0xE2, CHR 0x80, CHR 0x88], [CHR 0xE2, CHR 0x80, CHR 0x89],
      [CHR 0xE2, CHR 0x80, CHR 0x8A], [CHR 0xE2, CHR 0x80, CHR 0xA8],
      [CHR 0xE2, CHR 0x80, CHR 0xA9], [CHR 0xE2, CHR 0x80, CHR 0xAF],
      [CHR 0xE2, CHR 0x81, CHR 0x9F], [CHR 0xE3, CHR 0x80, CHR 0x80],
      [CHR 0xEF, CHR 0xBB, CHR 0xBF]]"

definition leading_whitespace :: "string \<Rightarrow> nat" where
  "leading_whitespace s =
     (case List.find (\<lambda>w. take (length w) s = w) js_whitespace of
        None \<Rightarrow> 0 | Some w \<Rightarrow> min (length w) (length s))"

definition trailing_whitespace :: "string \<Rightarrow> nat" where
  "trailing_whitespace s =
     (case List.find (\<lambda>w. drop (length s - length w) s = w) js_whitespace of
        None \<Rightarrow> 0 | Some w \<Rightarrow> min (length w) (length s))"

function trimStart :: "string \<Rightarrow> string" where
  "trimStart s =
     (if leading_whitespace s = 0 then s else trimStart (drop (leading_whitespace s) s))"
  by pat_completeness auto
termination
  by (relation "measure length") (auto simp: leading_whitespace_def split: option.splits)

function trimEnd :: "string \<Rightarrow> string" where
  "trimEnd s =
     (if trailing_whitespace s = 0 then s
      else trimEnd (take (length s - trailing_whitespace s) s))"
  by pat_completeness auto
termination
  by (relation "measure length") (auto simp: trailing_whitespace_def split: option.splits)

definition trim :: "string \<Rightarrow> string" where
  "trim s = trimEnd (trimStart s)"

section \<open>escapeHtml\<close>

text \<open>\<open>s.replace(/c/g, r)\<close> for a single character \<open>c\<close> and a replacement without \<open>$\<close>.\<close>

definition replace_all :: "char \<Rightarrow> string \<Rightarrow> string \<Rightarrow> string" where
  "replace_all c r s = concat (map (\<lambda>x. if x = c then r else [x]) s)"

definition escapeHtml :: "string \<Rightarrow> string" where
  "escapeHtml str =
     replace_all (CHR 0x27) ''&#039;''
       (replace_all (CHR 0x22) ''&quot;''
         (replace_all CHR ''>'' ''&gt;''
           (replace_all CHR ''<'' ''&lt;''
             (replace_all CHR ''&'' ''&amp;'' str))))"

text \<open>The characters with which text can open or close a tag or an attribute value.\<close>

definition is_markup :: "char \<Rightarrow> bool" where
  "is_markup c = (c = CHR ''<'' \<or> c = CHR ''>'' \<or> c = CHR 0x22 \<or> c = CHR 0x27)"

section \<open>The response and its rendering\<close>

text \<open>
  \<open>JSON.parse\<close> of the detector's output gives the response: an object with a
  \<open>language\<close> and a \<open>results\<close> array of Findings. The two fields the renderer reads
  through \<open>x || []\<close> are optional here, \<open>None\<close> standing for an absent field.
\<close>

record finding =
  vulnerability :: string
  severity :: string
  lines :: "int list option"
  explanation :: string
  patch :: string

record response =
  response_language :: string
  results :: "finding list option"

definition severityColors :: "(string \<times> string) list" where
  "severityColors =
     [(''Critical'', ''#dc2626''),
      (''High'', ''#ea580c''),
      (''Medium'', ''#ca8a04''),
      (''Low'', ''#16a34a''),
      (''Safe'', ''#22c55e''),
      (''N/A'', ''#6b7280'')]"

text \<open>\<open>severityColors[s] || '#6b7280'\<close>, as the template literals print it.\<close>

definition severityColor :: "string \<Rightarrow> string" where
  "severityColor s = template_text (js_or (js_get severityColors s) (Str ''#6b7280''))"

text \<open>\<open>Array.prototype.join\<close> on the texts of the elements.\<close>

fun join :: "string \<Rightarrow> string list \<Rightarrow> string" where
  "join sep [] = []"
| "join sep [x] = x"
| "join sep (x # y # ys) = x @ sep @ join sep (y # ys)"

subsection \<open>The static text of the results page (src/unnamed/part_001)\<close>

definition section_open :: string where
  \<open>section_open =
     ''\<newline>'' @
     ''            <div class="vuln-section" style="margin-bottom: 24px; padding-bottom: 24px; border-bottom: 1px solid var(--vscode-panel-border);">\<newline>'' @
     ''                ''\<close>

definition issue_1 :: string where
  \<open>issue_1 =
     ''<div class="vuln-number" style="font-size: 11px; color: var(--vscode-descriptionForeground); margin-bottom: 8px;">Issue ''\<close>

definition issue_2 :: string where
  \<open>issue_2 =
     '' of ''\<close>

definition issue_3 :: string where
  \<open>issue_3 =
     ''</div>''\<close>

definition name_card_1 :: string where
  \<open>name_card_1 =
     ''\<newline>'' @
     ''                \<newline>'' @
     ''                <div class="card">\<newline>'' @
     ''                    <div class="card-title">Vulnerability</div>\<newline>'' @
     ''                    <div class="vulnerability-name" style="color: ''\<close>

definition name_card_2 :: string where
  \<open>name_card_2 =
     '';">''\<close>

definition name_card_3 :: string where
  \<open>name_card_3 =
     ''</div>\<newline>'' @
     ''                </div>\<newline>'' @
     ''\<newline>'' @
     ''                <div class="card">\<newline>'' @
     ''                    <div class="card-title">Location & Severity</div>\<newline>'' @
     ''                    <div style="display: flex; gap: 8px; align-items: center; flex-wrap: wrap;">\<newline>'' @
     ''                        ''\<close>

definition location_1 :: string where
  \<open>location_1 =
     ''<span class="location-badge" style="display: inline-flex; align-items: center; gap: 4px; padding: 4px 10px; border-radius: 4px; font-size: 12px; font-weight: 500; background: #3b82f622; color: #3b82f6; border: 1px solid #3b82f644;">\<newline>'' @
     ''                            <span style="font-size: 14px;">'' @
     [CHR 0xEF, CHR 0xA3, CHR 0xBF, CHR 0xC3, CHR 0xBC, CHR 0xC3, CHR 0xAC, CHR 0xC3, CHR 0xA7] @
     ''</span> ''\<close>

definition location_2 :: string where
  \<open>location_2 =
     ''\<newline>'' @
     ''                        </span>''\<close>

definition detail_1 :: string where
  \<open>detail_1 =
     ''\<newline>'' @
     ''                        <span class="severity-badge" style="background: ''\<close>

definition detail_2 :: string where
  \<open>detail_2 =
     ''22; color: ''\<close>

definition detail_3 :: string where
  \<open>detail_3 =
     ''; border: 1px solid ''\<close>

definition detail_4 :: string where
  \<open>detail_4 =
     ''44;">''\<close>

definition detail_5 :: string where
  \<open>detail_5 =
     ''</span>\<newline>'' @
     ''                    </div>\<newline>'' @
     ''                </div>\<newline>'' @
     ''\<newline>'' @
     ''                <div class="card">\<newline>'' @
     ''                    <div class="card-title">Explanation</div>\<newline>'' @
     ''                    <p class="explanation">''\<close>

definition detail_6 :: string where
  \<open>detail_6 =
     ''</p>\<newline>'' @
     ''                </div>\<newline>'' @
     ''\<newline>'' @
     ''                <div class="card">\<newline>'' @
     ''                    <div class="card-title">Recommended Fix</div>\<newline>'' @
     ''                    <pre class="patch-code">''\<close>

definition detail_7 :: string where
  \<open>detail_7 =
     ''</pre>\<newline>'' @
     ''                </div>\<newline>'' @
     ''            </div>''\<close>

definition safe_message :: string where
  \<open>safe_message =
     ''\<newline>'' @
     ''        <div class="safe-message" style="text-align: center; padding: 40px 20px;">\<newline>'' @
     ''            <div style="font-size: 48px; margin-bottom: 16px;">'' @
     [CHR 0xE2, CHR 0x80, CHR 0x9A, CHR 0xC3, CHR 0xBA, CHR 0xC3, CHR 0x96] @ ''</div>\<newline>'' @
     ''            <h2 style="font-size: 18px; font-weight: 600; margin-bottom: 12px; color: #22c55e;">Code Appears Safe</h2>\<newline>'' @
     ''            <p style="color: var(--vscode-descriptionForeground); max-width: 400px; margin: 0 auto;">\<newline>'' @
     ''                No common vulnerability patterns were detected in this code snippet. \<newline>'' @
     ''                Note: This is a pattern-based analysis and may not catch all security issues. \<newline>'' @
     ''                Always follow secure coding practices and conduct thorough security reviews.\<newline>'' @
     ''            </p>\<newline>'' @
     ''        </div>''\<close>

definition page_1 :: string where
  \<open>page_1 =
     ''<!DOCTYPE html>\<newline>'' @
     ''<html lang="en">\<newline>'' @
     ''<head>\<newline>'' @
     ''    <meta charset="UTF-8">\<newline>'' @
     ''    <meta name="viewport" content="width=device-width, initial-scale=1.0">\<newline>'' @
     ''    <title>Security Analysis Results</title>\<newline>'' @
     ''    <style>\<newline>'' @
     ''        * {\<newline>'' @
     ''            margin: 0;\<newline>'' @
     ''            padding: 0;\<newline>'' @
     ''            box-sizing: border-box;\<newline>'' @
     ''        }\<newline>'' @
     ''        body {\<newline>'' @
     ''            font-family: -apple-system, BlinkMacSystemFont, 'Segoe UI', Roboto, Oxygen, Ubuntu, sans-serif;\<newline>'' @
     ''            padding: 20px;\<newline>'' @
     ''            background: var(--vscode-editor-background);\<newline>'' @
     ''            color: var(--vscode-editor-foreground);\<newline>'' @
     ''            line-height: 1.6;\<newline>'' @
     ''        }\<newline>'' @
     ''        .header {\<newline>'' @
     ''            display: flex;\<newline>'' @
     ''            align-items: center;\<newline>'' @
     ''            gap: 12px;\<newline>'' @
     ''            margin-bottom: 24px;\<newline>'' @
     ''            padding-bottom: 16px;\<newline>'' @
     ''            border-bottom: 1px solid var(--vscode-panel-border);\<newline>'' @
     ''        }\<newline>'' @
     ''        .header-icon {\<newline>'' @
     ''            font-size: 32px;\<newline>'' @
     ''        }\<newline>'' @
     ''        .header-text h1 {\<newline>'' @
     ''            font-size: 18px;\<newline>'' @
     ''            font-weight: 600;\<newline>'' @
     ''        }\<newline>'' @
     ''        .header-text .status {\<newline>'' @
     ''            font-size: 14px;\<newline>'' @
     ''            color: ''\<close>

definition page_2 :: string where
  \<open>page_2 =
     '';\<newline>'' @
     ''            font-weight: 500;\<newline>'' @
     ''        }\<newline>'' @
     ''        .card {\<newline>'' @
     ''            background: var(--vscode-input-background);\<newline>'' @
     ''            border: 1px solid var(--vscode-panel-border);\<newline>'' @
     ''            border-radius: 8px;\<newline>'' @
     ''            padding: 16px;\<newline>'' @
     ''            margin-bottom: 12px;\<newline>'' @
     ''        }\<newline>'' @
     ''        .card-title {\<newline>'' @
     ''            font-size: 12px;\<newline>'' @
     ''            text-transform: uppercase;\<newline>'' @
     ''            letter-spacing: 0.5px;\<newline>'' @
     ''            color: var(--vscode-descriptionForeground);\<newline>'' @
     ''            margin-bottom: 8px;\<newline>'' @
     ''        }\<newline>'' @
     ''        .vulnerability-name {\<newline>'' @
     ''            font-size: 16px;\<newline>'' @
     ''            font-weight: 600;\<newline>'' @
     ''        }\<newline>'' @
     ''        .severity-badge {\<newline>'' @
     ''            display: inline-block;\<newline>'' @
     ''            padding: 4px 12px;\<newline>'' @
     ''            border-radius: 4px;\<newline>'' @
     ''            font-size: 12px;\<newline>'' @
     ''            font-weight: 600;\<newline>'' @
     ''        }\<newline>'' @
     ''        .explanation {\<newline>'' @
     ''            font-size: 14px;\<newline>'' @
     ''            line-height: 1.7;\<newline>'' @
     ''        }\<newline>'' @
     ''        .patch-code {\<newline>'' @
     ''            background: var(--vscode-textCodeBlock-background);\<newline>'' @
     ''            border: 1px solid var(--vscode-panel-border);\<newline>'' @
     ''            border-radius: 4px;\<newline>'' @
     ''            padding: 12px;\<newline>'' @
     ''            font-family: 'Consolas', 'Monaco', 'Courier New', monospace;\<newline>'' @
     ''            font-size: 13px;\<newline>'' @
     ''            white-space: pre-wrap;\<newline>'' @
     ''            overflow-x: auto;\<newline>'' @
     ''        }\<newline>'' @
     ''        .footer {\<newline>'' @
     ''            margin-top: 24px;\<newline>'' @
     ''            padding-top: 16px;\<newline>'' @
     ''            border-top: 1px solid var(--vscode-panel-border);\<newline>'' @
     ''            font-size: 12px;\<newline>'' @
     ''            color: var(--vscode-descriptionForeground);\<newline>'' @
     ''        }\<newline>'' @
     ''    </style>\<newline>'' @
     ''</head>\<newline>'' @
     ''<body>\<newline>'' @
     ''    <div class="header">\<newline>'' @
     ''        <span class="header-icon">''\<close>

definition page_3 :: string where
  \<open>page_3 =
     ''</span>\<newline>'' @
     ''        <div class="header-text">\<newline>'' @
     ''            <h1>Security Analysis Results</h1>\<newline>'' @
     ''            <div class="status">''\<close>

definition page_4 :: string where
  \<open>page_4 =
     ''</div>\<newline>'' @
     ''        </div>\<newline>'' @
     ''    </div>\<newline>'' @
     ''\<newline>'' @
     ''    ''\<close>

definition page_5 :: string where
  \<open>page_5 =
     ''\<newline>'' @
     ''\<newline>'' @
     ''    <div class="footer">\<newline>'' @
     ''        <p>'' @
     [CHR 0xEF, CHR 0xA3, CHR 0xBF, CHR 0xC3, CHR 0xBC, CHR 0xC3, CHR 0xAE, CHR 0xC3, CHR 0xAD] @
     '' AI Code Vulnerability Detector '' @
     [CHR 0xE2, CHR 0x80, CHR 0x9A, CHR 0xC3, CHR 0x84, CHR 0xC2, CHR 0xA2] @
     '' Pattern-based security analysis</p>\<newline>'' @
     ''        <p>Note: This tool uses pattern matching and may not detect all vulnerabilities. Always conduct thorough security reviews.</p>\<newline>'' @
     ''    </div>\<newline>'' @
     ''</body>\<newline>'' @
     ''</html>''\<close>

definition icon_error :: string where
  \<open>icon_error =
     [CHR 0xE2, CHR 0x80, CHR 0x9A, CHR 0xC3, CHR 0xB9, CHR 0xC3, CHR 0xA5]\<close>

definition icon_warning :: string where
  \<open>icon_warning =
     [CHR 0xE2, CHR 0x80, CHR 0x9A, CHR 0xC3, CHR 0xB6, CHR 0xE2, CHR 0x80, CHR 0xA0, CHR 0xC3, CHR 0x94, CHR 0xE2, CHR 0x88, CHR 0x8F, CHR 0xC3, CHR 0xA8]\<close>

definition icon_safe :: string where
  \<open>icon_safe =
     [CHR 0xE2, CHR 0x80, CHR 0x9A, CHR 0xC3, CHR 0xBA, CHR 0xC3, CHR 0x96]\<close>

subsection \<open>getResultsHtml (src/unnamed/part_001)\<close>

text \<open>\<open>result.results || []\<close>\<close>

definition result_list :: "response \<Rightarrow> finding list" where
  "result_list result = (case results result of Some rs \<Rightarrow> rs | None \<Rightarrow> [])"

definition hasVulnerabilities :: "finding list \<Rightarrow> bool" where
  "hasVulnerabilities rs = (length rs > 0 \<and> vulnerability (rs ! 0) \<noteq> ''Error'')"

definition isError :: "finding list \<Rightarrow> bool" where
  "isError rs = (length rs > 0 \<and> vulnerability (rs ! 0) = ''Error'')"

definition statusIcon :: "finding list \<Rightarrow> string" where
  "statusIcon rs =
     (if isError rs then icon_error
      else if hasVulnerabilities rs then icon_warning
      else icon_safe)"

definition statusText :: "finding list \<Rightarrow> string" where
  "statusText rs =
     (if isError rs then ''Analysis Error''
      else if hasVulnerabilities rs then
        decimal (length rs) @ '' '' @
        (if length rs = 1 then ''vulnerability'' else ''vulnerabilities'') @ '' detected''
      else ''No vulnerabilities detected'')"

definition headerColor :: "finding list \<Rightarrow> string" where
  "headerColor rs =
     (if isError rs then ''#6b7280''
      else if hasVulnerabilities rs then ''#ea580c''
      else ''#22c55e'')"

definition lineText :: "finding \<Rightarrow> string" where
  "lineText vuln =
     (let ls = (case lines vuln of Some l \<Rightarrow> l | None \<Rightarrow> []) in
      if length ls = 1 then ''Line '' @ number_text (ls ! 0)
      else if length ls > 1 then ''Lines '' @ join '', '' (map number_text ls)
      else [])"

text \<open>One pass of the \<open>forEach\<close> body: the text appended to \<open>cardsHtml\<close>.\<close>

definition vuln_card :: "nat \<Rightarrow> nat \<Rightarrow> finding \<Rightarrow> string" where
  "vuln_card vulnCount index vuln =
     section_open @
     (if vulnCount > 1 then issue_1 @ decimal (index + 1) @ issue_2 @ decimal vulnCount @ issue_3
      else []) @
     name_card_1 @ severityColor (severity vuln) @ name_card_2 @
     escapeHtml (vulnerability vuln) @ name_card_3 @
     (if lineText vuln \<noteq> [] then location_1 @ escapeHtml (lineText vuln) @ location_2
      else []) @
     detail_1 @ severityColor (severity vuln) @ detail_2 @ severityColor (severity vuln) @
     detail_3 @ severityColor (severity vuln) @ detail_4 @
     escapeHtml (severity vuln) @ detail_5 @
     escapeHtml (explanation vuln) @ detail_6 @
     escapeHtml (patch vuln) @ detail_7"

definition cardsHtml :: "finding list \<Rightarrow> string" where
  "cardsHtml rs =
     (if hasVulnerabilities rs \<or> isError rs
      then concat (map (\<lambda>(index, vuln). vuln_card (length rs) index vuln) (enumerate 0 rs))
      else safe_message)"

definition getResultsHtml :: "response \<Rightarrow> string" where
  "getResultsHtml result =
     (let rs = result_list result in
      page_1 @ headerColor rs @ page_2 @ statusIcon rs @ page_3 @ statusText rs @ page_4 @
      cardsHtml rs @ page_5)"

subsection \<open>getResultsHtml of src/extension.js: the response is one Finding\<close>

definition flat_page_1 :: string where
  \<open>flat_page_1 =
     ''<!DOCTYPE html>\<newline>'' @
     ''<html lang="en">\<newline>'' @
     ''<head>\<newline>'' @
     ''    <meta charset="UTF-8">\<newline>'' @
     ''    <meta name="viewport" content="width=device-width, initial-scale=1.0">\<newline>'' @
     ''    <title>Security Analysis Results</title>\<newline>'' @
     ''    <style>\<newline>'' @
     ''        * {\<newline>'' @
     ''            margin: 0;\<newline>'' @
     ''            padding: 0;\<newline>'' @
     ''            box-sizing: border-box;\<newline>'' @
     ''        }\<newline>'' @
     ''        body {\<newline>'' @
     ''            font-family: -apple-system, BlinkMacSystemFont, 'Segoe UI', Roboto, Oxygen, Ubuntu, sans-serif;\<newline>'' @
     ''            padding: 20px;\<newline>'' @
     ''            background: var(--vscode-editor-background);\<newline>'' @
     ''            color: var(--vscode-editor-foreground);\<newline>'' @
     ''            line-height: 1.6;\<newline>'' @
     ''        }\<newline>'' @
     ''        .header {\<newline>'' @
     ''            display: flex;\<newline>'' @
     ''            align-items: center;\<newline>'' @
     ''            gap: 12px;\<newline>'' @
     ''            margin-bottom: 24px;\<newline>'' @
     ''            padding-bottom: 16px;\<newline>'' @
     ''            border-bottom: 1px solid var(--vscode-panel-border);\<newline>'' @
     ''        }\<newline>'' @
     ''        .header-icon {\<newline>'' @
     ''            font-size: 32px;\<newline>'' @
     ''        }\<newline>'' @
     ''        .header-text h1 {\<newline>'' @
     ''            font-size: 18px;\<newline>'' @
     ''            font-weight: 600;\<newline>'' @
     ''        }\<newline>'' @
     ''        .header-text .status {\<newline>'' @
     ''            font-size: 14px;\<newline>'' @
     ''            color: var(--vscode-descriptionForeground);\<newline>'' @
     ''        }\<newline>'' @
     ''        .card {\<newline>'' @
     ''            background: var(--vscode-input-background);\<newline>'' @
     ''            border: 1px solid var(--vscode-panel-border);\<newline>'' @
     ''            border-radius: 8px;\<newline>'' @
     ''            padding: 16px;\<newline>'' @
     ''            margin-bottom: 16px;\<newline>'' @
     ''        }\<newline>'' @
     ''        .card-title {\<newline>'' @
     ''            font-size: 12px;\<newline>'' @
     ''            text-transform: uppercase;\<newline>'' @
     ''            letter-spacing: 0.5px;\<newline>'' @
     ''            color: var(--vscode-descriptionForeground);\<newline>'' @
     ''            margin-bottom: 8px;\<newline>'' @
     ''        }\<newline>'' @
     ''        .vulnerability-name {\<newline>'' @
     ''            font-size: 16px;\<newline>'' @
     ''            font-weight: 600;\<newline>'' @
     ''            color: ''\<close>

definition flat_page_2 :: string where
  \<open>flat_page_2 =
     '';\<newline>'' @
     ''        }\<newline>'' @
     ''        .severity-badge {\<newline>'' @
     ''            display: inline-block;\<newline>'' @
     ''            padding: 4px 12px;\<newline>'' @
     ''            border-radius: 4px;\<newline>'' @
     ''            font-size: 12px;\<newline>'' @
     ''            font-weight: 600;\<newline>'' @
     ''            background: ''\<close>

definition flat_page_3 :: string where
  \<open>flat_page_3 =
     ''22;\<newline>'' @
     ''            color: ''\<close>

definition flat_page_4 :: string where
  \<open>flat_page_4 =
     '';\<newline>'' @
     ''            border: 1px solid ''\<close>

definition flat_page_5 :: string where
  \<open>flat_page_5 =
     ''44;\<newline>'' @
     ''        }\<newline>'' @
     ''        .explanation {\<newline>'' @
     ''            font-size: 14px;\<newline>'' @
     ''            line-height: 1.7;\<newline>'' @
     ''        }\<newline>'' @
     ''        .patch-code {\<newline>'' @
     ''            background: var(--vscode-textCodeBlock-background);\<newline>'' @
     ''            border: 1px solid var(--vscode-panel-border);\<newline>'' @
     ''            border-radius: 4px;\<newline>'' @
     ''            padding: 12px;\<newline>'' @
     ''            font-family: 'Consolas', 'Monaco', 'Courier New', monospace;\<newline>'' @
     ''            font-size: 13px;\<newline>'' @
     ''            white-space: pre-wrap;\<newline>'' @
     ''            overflow-x: auto;\<newline>'' @
     ''        }\<newline>'' @
     ''        .footer {\<newline>'' @
     ''            margin-top: 24px;\<newline>'' @
     ''            padding-top: 16px;\<newline>'' @
     ''            border-top: 1px solid var(--vscode-panel-border);\<newline>'' @
     ''            font-size: 12px;\<newline>'' @
     ''            color: var(--vscode-descriptionForeground);\<newline>'' @
     ''        }\<newline>'' @
     ''    </style>\<newline>'' @
     ''</head>\<newline>'' @
     ''<body>\<newline>'' @
     ''    <div class="header">\<newline>'' @
     ''        <span class="header-icon">''\<close>

definition flat_page_6 :: string where
  \<open>flat_page_6 =
     ''</span>\<newline>'' @
     ''        <div class="header-text">\<newline>'' @
     ''            <h1>Security Analysis Results</h1>\<newline>'' @
     ''            <div class="status">''\<close>

definition flat_page_7 :: string where
  \<open>flat_page_7 =
     ''</div>\<newline>'' @
     ''        </div>\<newline>'' @
     ''    </div>\<newline>'' @
     ''\<newline>'' @
     ''    <div class="card">\<newline>'' @
     ''        <div class="card-title">Vulnerability</div>\<newline>'' @
     ''        <div class="vulnerability-name">''\<close>

definition flat_page_8 :: string where
  \<open>flat_page_8 =
     ''</div>\<newline>'' @
     ''    </div>\<newline>'' @
     ''\<newline>'' @
     ''    <div class="card">\<newline>'' @
     ''        <div class="card-title">Severity Level</div>\<newline>'' @
     ''        <span class="severity-badge">''\<close>

definition flat_page_9 :: string where
  \<open>flat_page_9 =
     ''</span>\<newline>'' @
     ''    </div>\<newline>'' @
     ''\<newline>'' @
     ''    <div class="card">\<newline>'' @
     ''        <div class="card-title">Explanation</div>\<newline>'' @
     ''        <p class="explanation">''\<close>

definition flat_page_10 :: string where
  \<open>flat_page_10 =
     ''</p>\<newline>'' @
     ''    </div>\<newline>'' @
     ''\<newline>'' @
     ''    <div class="card">\<newline>'' @
     ''        <div class="card-title">Recommended Fix</div>\<newline>'' @
     ''        <pre class="patch-code">''\<close>

definition flat_page_11 :: string where
  \<open>flat_page_11 =
     ''</pre>\<newline>'' @
     ''    </div>\<newline>'' @
     ''\<newline>'' @
     ''    <div class="footer">\<newline>'' @
     ''        <p>'' @ [CHR 0xF0, CHR 0x9F, CHR 0x94, CHR 0x92] @
     '' AI Code Vulnerability Detector '' @ [CHR 0xE2, CHR 0x80, CHR 0xA2] @
     '' Pattern-based security analysis</p>\<newline>'' @
     ''        <p>Note: This tool uses pattern matching and may not detect all vulnerabilities. Always conduct thorough security reviews.</p>\<newline>'' @
     ''    </div>\<newline>'' @
     ''</body>\<newline>'' @
     ''</html>''\<close>

definition flat_icon_warning :: string where
  \<open>flat_icon_warning =
     [CHR 0xE2, CHR 0x9A, CHR 0xA0, CHR 0xEF, CHR 0xB8, CHR 0x8F]\<close>

definition flat_icon_error :: string where
  \<open>flat_icon_error =
     [CHR 0xE2, CHR 0x9D, CHR 0x8C]\<close>

definition flat_icon_safe :: string where
  \<open>flat_icon_safe =
     [CHR 0xE2, CHR 0x9C, CHR 0x85]\<close>

definition isVulnerable :: "finding \<Rightarrow> bool" where
  "isVulnerable result =
     (vulnerability result \<noteq> ''None Detected'' \<and> vulnerability result \<noteq> ''Error'')"

definition flat_statusIcon :: "finding \<Rightarrow> string" where
  "flat_statusIcon result =
     (if isVulnerable result then flat_icon_warning
      else if vulnerability result = ''Error'' then flat_icon_error
      else flat_icon_safe)"

definition flat_statusText :: "finding \<Rightarrow> string" where
  "flat_statusText result =
     (if isVulnerable result then ''Vulnerability Detected''
      else if vulnerability result = ''Error'' then ''Analysis Error''
      else ''Code Appears Safe'')"

definition flat_getResultsHtml :: "finding \<Rightarrow> string" where
  "flat_getResultsHtml result =
     flat_page_1 @ severityColor (severity result) @
     flat_page_2 @ severityColor (severity result) @
     flat_page_3 @ severityColor (severity result) @
     flat_page_4 @ severityColor (severity result) @
     flat_page_5 @ flat_statusIcon result @
     flat_page_6 @ flat_statusText result @
     flat_page_7 @ escapeHtml (vulnerability result) @
     flat_page_8 @ escapeHtml (severity result) @
     flat_page_9 @ escapeHtml (explanation result) @
     flat_page_10 @ escapeHtml (patch result) @
     flat_page_11"

section \<open>The command handler registered by activate\<close>

text \<open>
  What the handler reads from the editor: \<open>editor.document.getText(editor.selection)\<close>
  and \<open>editor.document.languageId\<close>. \<open>None\<close> is \<open>vscode.window.activeTextEditor\<close>
  being undefined.
\<close>

record editor =
  selectedText :: string
  languageId :: string

definition languageMap :: "(string \<times> string) list" where
  "languageMap =
     [(''python'', ''python''),
      (''javascript'', ''javascript''),
      (''javascriptreact'', ''javascript''),
      (''typescript'', ''javascript''),
      (''typescriptreact'', ''javascript'')]"

datatype ui_action =
    ShowErrorMessage string
  | ShowWarningMessage string
  | ShowResultsPanel string

text \<open>
  The handler either returns after one notification, or goes on to
  \<open>analyzeCode(selectedText, language, context)\<close> under the progress indicator.
\<close>

datatype command_step = Done ui_action | Analyze string js_value

definition vulnDetection_analyze :: "editor option \<Rightarrow> command_step" where
  \<open>vulnDetection_analyze activeTextEditor =
     (case activeTextEditor of
        None \<Rightarrow> Done (ShowErrorMessage ''No active editor found.'')
      | Some ed \<Rightarrow>
          if selectedText ed = [] \<or> trim (selectedText ed) = []
          then Done (ShowErrorMessage ''Please select some code to analyze.'')
          else
            let language = js_get languageMap (languageId ed) in
            if \<not> truthy language
            then Done (ShowWarningMessage
                   (''Language "'' @ languageId ed @
                    ''" is not supported. Only Python and JavaScript are currently supported.''))
            else Analyze (selectedText ed) language)\<close>

section \<open>analyzeCode and tryPythonCommand\<close>

text \<open>
  The functions of the Node.js runtime that the launcher calls are parameters:
  \<open>JSON.stringify\<close> on an object given by its fields in order, \<open>JSON.parse\<close>
  (\<open>None\<close> when it throws) and \<open>path.join\<close>. The type \<open>'r\<close> is the parsed payload.
\<close>

record 'r host =
  json_stringify :: "(string \<times> js_value) list \<Rightarrow> string"
  json_parse :: "string \<Rightarrow> 'r option"
  path_join :: "string \<Rightarrow> string \<Rightarrow> string"

text \<open>
  A spawned process reports to its handlers through events: chunks of its two output
  streams, \<open>error\<close>, and \<open>close\<close> with the exit code (\<open>None\<close> is \<open>null\<close>, a process ended
  by a signal). Which events arrive, and in which order, is the environment's choice.
\<close>

datatype process_event =
    StdoutData string
  | StderrData string
  | ErrorEvent
  | CloseEvent "int option"

text \<open>
  One call of \<open>tryPythonCommand\<close> that spawned a process: its \<open>index\<close> and its two
  accumulators. The processes of one request are numbered in the order they were spawned.
\<close>

record attempt =
  attempt_index :: nat
  stdout :: string
  stderr :: string

datatype io_action =
    Spawn string "string list"
  | StdinWrite nat string
  | StdinEnd nat

datatype 'r settlement = Resolved 'r | Rejected string

text \<open>
  The state of one request: the processes spawned so far, what was done to them, and
  the calls of the promise's \<open>resolve\<close> and \<open>reject\<close> in order. A promise is settled by
  the first such call and ignores the later ones.
\<close>

record 'r request_state =
  attempts :: "attempt list"
  io_trace :: "io_action list"
  settle_calls :: "'r settlement list"

definition resolve :: "'r \<Rightarrow> 'r request_state \<Rightarrow> 'r request_state" where
  "resolve result s = s\<lparr>settle_calls := settle_calls s @ [Resolved result]\<rparr>"

definition reject :: "string \<Rightarrow> 'r request_state \<Rightarrow> 'r request_state" where
  "reject message s = s\<lparr>settle_calls := settle_calls s @ [Rejected message]\<rparr>"

definition promise :: "'r request_state \<Rightarrow> 'r settlement option" where
  "promise s = (case settle_calls s of [] \<Rightarrow> None | x # _ \<Rightarrow> Some x)"

definition not_installed :: string where
  "not_installed = ''Python is not installed or not in PATH. Please install Python 3.x.''"

text \<open>
  The synchronous part of \<open>tryPythonCommand\<close>: the bound check, \<open>spawn\<close>, the
  registration of the handlers (the new entry of \<open>attempts\<close>), and the write to the
  process's standard input.
\<close>

definition tryPythonCommand ::
  "'r host \<Rightarrow> string list \<Rightarrow> nat \<Rightarrow> string \<Rightarrow> string \<Rightarrow> js_value \<Rightarrow>
   'r request_state \<Rightarrow> 'r request_state" where
  "tryPythonCommand h commands index detectorPath code language s =
     (if index \<ge> length commands then reject not_installed s
      else
        let pythonCmd = commands ! index;
            pid = length (attempts s);
            input = json_stringify h [(''code'', Str code), (''language'', language)]
        in s\<lparr>attempts := attempts s @ [\<lparr>attempt_index = index, stdout = [], stderr = []\<rparr>],
              io_trace := io_trace s @
                [Spawn pythonCmd [detectorPath], StdinWrite pid input, StdinEnd pid]\<rparr>)"

text \<open>\<open>`${exitCode}`\<close>\<close>

definition exit_code_text :: "int option \<Rightarrow> string" where
  "exit_code_text exitCode = (case exitCode of None \<Rightarrow> ''null'' | Some n \<Rightarrow> number_text n)"

text \<open>The \<open>close\<close> handler of the process whose accumulators are in \<open>a\<close>.\<close>

definition on_close ::
  "'r host \<Rightarrow> int option \<Rightarrow> attempt \<Rightarrow> 'r request_state \<Rightarrow> 'r request_state" where
  "on_close h exitCode a s =
     (if exitCode = Some 0 then
        (case json_parse h (stdout a) of
           Some result \<Rightarrow> resolve result s
         | None \<Rightarrow> reject (''Failed to parse detector output: '' @ stdout a) s)
      else
        reject (''Detector exited with code '' @ exit_code_text exitCode @ '': '' @ stderr a) s)"

text \<open>
  The four handlers, run when process \<open>pid\<close> emits an event. A process that was never
  spawned emits nothing.
\<close>

definition deliver ::
  "'r host \<Rightarrow> string list \<Rightarrow> string \<Rightarrow> string \<Rightarrow> js_value \<Rightarrow>
   nat \<times> process_event \<Rightarrow> 'r request_state \<Rightarrow> 'r request_state" where
  "deliver h commands detectorPath code language e s =
     (let pid = fst e in
      if pid \<ge> length (attempts s) then s
      else
        let a = attempts s ! pid in
        case snd e of
          StdoutData d \<Rightarrow> s\<lparr>attempts := (attempts s)[pid := a\<lparr>stdout := stdout a @ d\<rparr>]\<rparr>
        | StderrData d \<Rightarrow> s\<lparr>attempts := (attempts s)[pid := a\<lparr>stderr := stderr a @ d\<rparr>]\<rparr>
        | ErrorEvent \<Rightarrow>
            tryPythonCommand h commands (attempt_index a + 1) detectorPath code language s
        | CloseEvent exitCode \<Rightarrow> on_close h exitCode a s)"

definition pythonCommands :: "string list" where
  "pythonCommands = [''python'', ''python3'', ''py'']"

definition analyzeCode :: "'r host \<Rightarrow> string \<Rightarrow> string \<Rightarrow> js_value \<Rightarrow> 'r request_state" where
  "analyzeCode h extensionPath code language =
     tryPythonCommand h pythonCommands 0 (path_join h extensionPath ''detector.py'') code language
       \<lparr>attempts = [], io_trace = [], settle_calls = []\<rparr>"

text \<open>The request after the events \<open>es\<close> have been handled, in order.\<close>

definition run ::
  "'r host \<Rightarrow> string \<Rightarrow> string \<Rightarrow> js_value \<Rightarrow> (nat \<times> process_event) list \<Rightarrow>
   'r request_state" where
  "run h extensionPath code language es =
     fold (deliver h pythonCommands (path_join h extensionPath ''detector.py'') code language) es
       (analyzeCode h extensionPath code language)"

text \<open>
  The callback given to \<open>withProgress\<close>, once the promise of \<open>analyzeCode\<close> is settled:
  \<open>showResultsPanel\<close> sets the panel's HTML to \<open>getResultsHtml(result)\<close>.
\<close>

definition progress_task :: "response settlement \<Rightarrow> ui_action" where
  "progress_task outcome =
     (case outcome of
        Resolved result \<Rightarrow> ShowResultsPanel (getResultsHtml result)
      | Rejected message \<Rightarrow> ShowErrorMessage (''Analysis failed: '' @ message))"

text \<open>
  What the environment may do: an event is emitted by a process that has been spawned,
  and a process emits \<open>error\<close> at most once (the code neither kills a process nor sends
  it messages, so \<open>error\<close> can only report the failed spawn). The list \<open>errored\<close> holds
  the processes that have emitted \<open>error\<close>.
\<close>

fun admissible ::
  "'r host \<Rightarrow> string list \<Rightarrow> string \<Rightarrow> string \<Rightarrow> js_value \<Rightarrow>
   'r request_state \<Rightarrow> nat list \<Rightarrow> (nat \<times> process_event) list \<Rightarrow> bool" where
  "admissible h commands detectorPath code language s errored [] = True"
| "admissible h commands detectorPath code language s errored (e # es) =
     (fst e < length (attempts s) \<and>
      \<not> (snd e = ErrorEvent \<and> fst e \<in> set errored) \<and>
      admissible h commands detectorPath code language
        (deliver h commands detectorPath code language e s)
        (if snd e = ErrorEvent then fst e # errored else errored) es)"

section \<open>The scan engine, from the specification\<close>

text \<open>
  The scan engine (\<open>detector.py\<close> in the project structure the README lists) is not among
  the sources. The definitions of this section are written from sections 3, 4 and 6 of the
  specification; each says so. Pattern matching is a parameter of a rule.
\<close>


text \<open>
  Modelled from the spec: the closed set of languages of the missing detector.py,
  "enum {python, javascript}".
\<close>

datatype lang = Python | JavaScript

definition language_of :: "string \<Rightarrow> lang option" where
  "language_of l =
     (if l = ''python'' then Some Python
      else if l = ''javascript'' then Some JavaScript
      else None)"

text \<open>
  Modelled from the spec: the severities of the missing detector.py, "ordered enum
  {Critical, High, Medium, Low}, total order Critical > High > Medium > Low". The rank
  counts down from the most severe.
\<close>

datatype severity_level = Critical | High | Medium | Low

fun severity_rank :: "severity_level \<Rightarrow> nat" where
  "severity_rank Critical = 0"
| "severity_rank High = 1"
| "severity_rank Medium = 2"
| "severity_rank Low = 3"

fun severity_text :: "severity_level \<Rightarrow> string" where
  "severity_text Critical = ''Critical''"
| "severity_text High = ''High''"
| "severity_text Medium = ''Medium''"
| "severity_text Low = ''Low''"

text \<open>
  Modelled from the spec: a Rule of the missing detector.py. The matcher gives the spans
  (first offset, offset after the last) of its matches in the code, \<open>None\<close> when the
  matcher itself fails; the exclusion is tested on the matched text; the templates
  render from the matched text.
\<close>

record rule =
  rule_id :: string
  rule_language :: lang
  category :: string
  matcher :: "string \<Rightarrow> (nat \<times> nat) list option"
  exclusion :: "string \<Rightarrow> bool"
  rule_severity :: severity_level
  explanation_template :: "string \<Rightarrow> string"
  patch_template :: "string \<Rightarrow> string"

text \<open>
  Modelled from the spec: \<open>rulesFor\<close> of the missing detector.py, "every rule whose
  language equals the argument", in declaration order; each rule with its place in the
  catalog.
\<close>

definition rulesFor :: "rule list \<Rightarrow> lang \<Rightarrow> (nat \<times> rule) list" where
  "rulesFor catalog l = filter (\<lambda>(i, r). rule_language r = l) (enumerate 0 catalog)"

text \<open>
  Modelled from the spec: a candidate of the missing detector.py, one match of one rule
  ("each individual match becomes a candidate"); a failing matcher's rule is skipped.
\<close>

record candidate =
  decl_index :: nat
  from_rule :: rule
  span :: "nat \<times> nat"

definition matches_of :: "string \<Rightarrow> nat \<times> rule \<Rightarrow> candidate list" where
  "matches_of code ir =
     (case matcher (snd ir) code of
        None \<Rightarrow> []
      | Some spans \<Rightarrow> map (\<lambda>sp. \<lparr>decl_index = fst ir, from_rule = snd ir, span = sp\<rparr>) spans)"

definition matched_text :: "string \<Rightarrow> nat \<times> nat \<Rightarrow> string" where
  "matched_text code sp = take (snd sp - fst sp) (drop (fst sp) code)"

text \<open>
  Modelled from the spec: the exclusion check of the missing detector.py, "discard
  candidates whose matched region also satisfies the exclusion".
\<close>

definition accepted :: "string \<Rightarrow> candidate \<Rightarrow> bool" where
  "accepted code c = (\<not> exclusion (from_rule c) (matched_text code (span c)))"

text \<open>
  Modelled from the spec: deduplication in the missing detector.py, "multiple rules
  matching the identical span collapse to the higher-severity rule; ties keep catalog
  declaration order (first-declared wins)".
\<close>

definition outranks :: "candidate \<Rightarrow> candidate \<Rightarrow> bool" where
  "outranks d c =
     (severity_rank (rule_severity (from_rule d)) < severity_rank (rule_severity (from_rule c)) \<or>
      (severity_rank (rule_severity (from_rule d)) = severity_rank (rule_severity (from_rule c)) \<and>
       decl_index d < decl_index c))"

definition dedupe :: "candidate list \<Rightarrow> candidate list" where
  "dedupe cs = filter (\<lambda>c. \<not> list_ex (\<lambda>d. span d = span c \<and> outranks d c) cs) cs"

text \<open>
  Modelled from the spec: line numbers in the missing detector.py, "1-based", the lines a
  span touches in ascending order.
\<close>

definition line_of :: "string \<Rightarrow> nat \<Rightarrow> nat" where
  "line_of code offset = Suc (length (filter (\<lambda>c. c = CHR 0x0A) (take offset code)))"

definition first_line :: "string \<Rightarrow> candidate \<Rightarrow> nat" where
  "first_line code c = line_of code (fst (span c))"

definition span_lines :: "string \<Rightarrow> nat \<times> nat \<Rightarrow> nat list" where
  "span_lines code sp =
     [line_of code (fst sp) ..< Suc (line_of code (max (fst sp) (snd sp - 1)))]"

text \<open>
  Modelled from the spec: the order of the final Findings of the missing detector.py,
  "severity descending (Critical to Low), then by first line ascending, then by rule
  declaration order", and a sort by insertion into that order.
\<close>

definition ranks_before :: "string \<Rightarrow> candidate \<Rightarrow> candidate \<Rightarrow> bool" where
  "ranks_before code a b =
     (severity_rank (rule_severity (from_rule a)) < severity_rank (rule_severity (from_rule b)) \<or>
      (severity_rank (rule_severity (from_rule a)) = severity_rank (rule_severity (from_rule b)) \<and>
       (first_line code a < first_line code b \<or>
        (first_line code a = first_line code b \<and> decl_index a \<le> decl_index b))))"

fun insert_ranked :: "string \<Rightarrow> candidate \<Rightarrow> candidate list \<Rightarrow> candidate list" where
  "insert_ranked code c [] = [c]"
| "insert_ranked code c (d # ds) =
     (if ranks_before code c d then c # d # ds else d # insert_ranked code c ds)"

fun sort_ranked :: "string \<Rightarrow> candidate list \<Rightarrow> candidate list" where
  "sort_ranked code [] = []"
| "sort_ranked code (c # cs) = insert_ranked code c (sort_ranked code cs)"

text \<open>
  Modelled from the spec: the Finding of a candidate in the missing detector.py, with the
  category and severity of its rule and the templates rendered from the matched text.
\<close>

definition to_finding :: "string \<Rightarrow> candidate \<Rightarrow> finding" where
  "to_finding code c =
     \<lparr>vulnerability = category (from_rule c),
      severity = severity_text (rule_severity (from_rule c)),
      lines = Some (map int (span_lines code (span c))),
      explanation = explanation_template (from_rule c) (matched_text code (span c)),
      patch = patch_template (from_rule c) (matched_text code (span c))\<rparr>"

text \<open>
  Modelled from the spec: steps 1 to 8 of \<open>analyze\<close> of the missing detector.py. A language
  outside the closed set is answered by the explicit signal, every other request by a
  response whose results may be empty.
\<close>

definition ranked_candidates :: "rule list \<Rightarrow> string \<Rightarrow> lang \<Rightarrow> candidate list" where
  "ranked_candidates catalog code l =
     sort_ranked code
       (dedupe (filter (accepted code) (concat (map (matches_of code) (rulesFor catalog l)))))"

datatype engine_result = UnsupportedLanguage | Response response

definition analyze :: "rule list \<Rightarrow> string \<Rightarrow> string \<Rightarrow> engine_result" where
  "analyze catalog code language =
     (case language_of language of
        None \<Rightarrow> UnsupportedLanguage
      | Some l \<Rightarrow>
          Response \<lparr>response_language = language,
                    results = Some (map (to_finding code) (ranked_candidates catalog code l))\<rparr>)"

section \<open>Notions used to state the properties\<close>




text \<open>
  How the \<open>close\<close> handler settles, as a function of the exit code and of the two
  accumulated texts.
\<close>

definition close_outcome :: "'r host \<Rightarrow> int option \<Rightarrow> string \<Rightarrow> string \<Rightarrow> 'r settlement" where
  "close_outcome h exitCode out err =
     (if exitCode = Some 0 then
        (case json_parse h out of
           Some result \<Rightarrow> Resolved result
         | None \<Rightarrow> Rejected (''Failed to parse detector output: '' @ out))
      else Rejected (''Detector exited with code '' @ exit_code_text exitCode @ '': '' @ err))"

text \<open>A process has ended, for the launcher, once it has emitted \<open>error\<close> or \<open>close\<close>.\<close>

fun is_terminal :: "process_event \<Rightarrow> bool" where
  "is_terminal ErrorEvent = True"
| "is_terminal (CloseEvent c) = True"
| "is_terminal ev = False"

definition terminated :: "(nat \<times> process_event) list \<Rightarrow> nat \<Rightarrow> bool" where
  "terminated es pid = list_ex (\<lambda>e. fst e = pid \<and> is_terminal (snd e)) es"

definition error_pids :: "(nat \<times> process_event) list \<Rightarrow> nat list" where
  "error_pids es = map fst (filter (\<lambda>e. snd e = ErrorEvent) es)"

definition terminal_pids :: "(nat \<times> process_event) list \<Rightarrow> nat list" where
  "terminal_pids es = map fst (filter (\<lambda>e. is_terminal (snd e)) es)"

text \<open>The commands spawned, in order, and the number of spawns.\<close>

fun spawned :: "io_action list \<Rightarrow> string list" where
  "spawned [] = []"
| "spawned (Spawn cmd args # as) = cmd # spawned as"
| "spawned (a # as) = spawned as"

text \<open>What is done to process \<open>pid\<close> when it is spawned.\<close>

definition attempt_io ::
  "'r host \<Rightarrow> string list \<Rightarrow> string \<Rightarrow> string \<Rightarrow> js_value \<Rightarrow> attempt list \<Rightarrow> nat \<Rightarrow>
   io_action list" where
  "attempt_io h commands detectorPath code language as pid =
     [Spawn (commands ! attempt_index (as ! pid)) [detectorPath],
      StdinWrite pid (json_stringify h [(''code'', Str code), (''language'', language)]),
      StdinEnd pid]"

definition io_matches ::
  "'r host \<Rightarrow> string list \<Rightarrow> string \<Rightarrow> string \<Rightarrow> js_value \<Rightarrow> 'r request_state \<Rightarrow> bool" where
  "io_matches h commands detectorPath code language s =
     (io_trace s =
      concat (map (attempt_io h commands detectorPath code language (attempts s))
                [0..<length (attempts s)]))"

text \<open>
  The invariant of the retry chain, for the processes \<open>E\<close> that have emitted \<open>error\<close> and
  the processes \<open>T\<close> that have ended: the processes were spawned for the candidates
  \<open>0, 1, ...\<close> in this order, every process but the last has emitted \<open>error\<close>, the promise
  is settled once the last process has ended, only the process of the last candidate can
  be one that has emitted \<open>error\<close> with no successor, and \<open>reject\<close> was called with the
  "not installed" message once if the last process has emitted \<open>error\<close>, and never otherwise.
\<close>

definition chain_invariant :: "string list \<Rightarrow> 'r request_state \<Rightarrow> nat set \<Rightarrow> nat set \<Rightarrow> bool" where
  "chain_invariant commands s E T =
     (1 \<le> length (attempts s) \<and> length (attempts s) \<le> length commands \<and>
      map attempt_index (attempts s) = [0..<length (attempts s)] \<and>
      E \<subseteq> {..<length (attempts s)} \<and> T \<subseteq> {..<length (attempts s)} \<and>
      {i. Suc i < length (attempts s)} \<subseteq> E \<and>
      (length (attempts s) - 1 \<in> T \<longrightarrow> settle_calls s \<noteq> []) \<and>
      (length (attempts s) - 1 \<in> E \<longrightarrow> length (attempts s) = length commands) \<and>
      length (filter (\<lambda>x. x = Rejected not_installed) (settle_calls s)) =
        (if length (attempts s) - 1 \<in> E then 1 else 0))"

section \<open>Concrete inputs\<close>

text \<open>
  A host, a run of events and two responses on which the theorems below are instantiated.
\<close>

definition demo_plain :: response where
  "demo_plain =
     \<lparr>response_language = ''python'',
      results = Some [\<lparr>vulnerability = ''Code Injection'', severity = ''Critical'',
                       lines = Some [1], explanation = ''eval'', patch = ''ast''\<rparr>]\<rparr>"

definition demo_hostile :: response where
  \<open>demo_hostile =
     \<lparr>response_language = ''python'',
      results = Some [\<lparr>vulnerability = ''<script>alert(1)</script>'',
                       severity = ''"><img src=x>'',
                       lines = Some [7, 8], explanation = ''<b>&</b>'', patch = ''</pre>''\<rparr>]\<rparr>\<close>

definition demo_host :: "string host" where
  "demo_host =
     \<lparr>json_stringify = (\<lambda>fields. concat (map (\<lambda>(k, v). k @ ''='' @ template_text v @ '';'') fields)),
      json_parse = (\<lambda>s. if s = ''{}'' then Some s else None),
      path_join = (\<lambda>a b. a @ ''/'' @ b)\<rparr>"

definition demo_events :: "(nat \<times> process_event) list" where
  "demo_events =
     [(0, ErrorEvent), (0, CloseEvent (Some (- 2))), (1, StdoutData ''{}''), (1, CloseEvent (Some 0))]"

text \<open>
  The recursive equations of these functions are unfolded by hand, where a proof needs them.
\<close>

declare decimal.simps [simp del] trimStart.simps [simp del] trimEnd.simps [simp del]

section \<open>Properties of escapeHtml and of the texts the renderer interpolates\<close>

lemma replace_all_absent:
  "x \<notin> set r \<Longrightarrow> x = c \<or> x \<notin> set s \<Longrightarrow> x \<notin> set (replace_all c r s)"
  by (auto simp: replace_all_def split: if_splits)

lemma escapeHtml_no_markup: "is_markup c \<Longrightarrow> c \<notin> set (escapeHtml s)"
  unfolding escapeHtml_def is_markup_def
  by (elim disjE) (simp_all add: replace_all_absent)

lemma filter_markup_escapeHtml [simp]: "filter is_markup (escapeHtml s) = []"
  using escapeHtml_no_markup [of _ s] by (auto simp: filter_empty_conv)

lemma digit_char_not_markup: "d < 10 \<Longrightarrow> \<not> is_markup (digit_char d)"
proof -
  assume "d < 10"
  then have "d \<in> {0, 1, 2, 3, 4, 5, 6, 7, 8, 9}" by auto
  then show ?thesis
    by (auto simp: digit_char_def is_markup_def)
qed

lemma filter_markup_decimal [simp]: "filter is_markup (decimal n) = []"
proof (induction n rule: decimal.induct)
  case (1 n)
  show ?case
  proof (cases "n < 10")
    case True
    then show ?thesis
      by (subst decimal.simps) (simp add: digit_char_not_markup del: decimal.simps)
  next
    case False
    with 1 show ?thesis
      by (subst decimal.simps) (simp add: digit_char_not_markup del: decimal.simps)
  qed
qed

lemma filter_markup_number_text [simp]: "filter is_markup (number_text i) = []"
  by (simp add: number_text_def is_markup_def del: decimal.simps)

lemma filter_markup_join [simp]:
  "filter is_markup sep = [] \<Longrightarrow> \<forall>x\<in>set xs. filter is_markup x = [] \<Longrightarrow>
   filter is_markup (join sep xs) = []"
  by (induction sep xs rule: join.induct) auto

lemma severityColors_values:
  "map_of severityColors s = Some v \<Longrightarrow> v \<noteq> [] \<and> filter is_markup v = []"
proof -
  assume "map_of severityColors s = Some v"
  then have "(s, v) \<in> set severityColors" by (rule map_of_SomeD)
  then show ?thesis
    by (auto simp: severityColors_def is_markup_def)
qed

lemma object_prototype_keys_plain:
  "k \<in> set object_prototype_keys \<Longrightarrow> filter is_markup k = []"
  by (auto simp: object_prototype_keys_def is_markup_def)

lemma filter_markup_template_text_Inherited:
  assumes k: "k \<in> set object_prototype_keys"
  shows "filter is_markup (template_text (Inherited k)) = []"
proof -
  have fk: "filter is_markup k = []" by (rule object_prototype_keys_plain [OF k])
  have plain:
    "filter is_markup ''[object Object]'' = []"
    "filter is_markup ''function '' = []"
    "filter is_markup ''Object'' = []"
    "filter is_markup ''() { [native code] }'' = []"
    by (simp_all add: is_markup_def)
  show ?thesis
    by (simp only: template_text.simps filter_append fk plain if_distrib [of "filter is_markup"]
        append_Nil if_cancel)
qed

lemma filter_markup_severityColor [simp]: "filter is_markup (severityColor s) = []"
proof (cases "map_of severityColors s")
  case (Some v)
  with severityColors_values [OF Some] show ?thesis
    by (simp add: severityColor_def js_get_def js_or_def)
next
  case None
  show ?thesis
  proof (cases "s \<in> set object_prototype_keys")
    case True
    with None filter_markup_template_text_Inherited [OF True] show ?thesis
      by (simp add: severityColor_def js_get_def js_or_def del: template_text.simps)
  next
    case False
    with None show ?thesis
      by (simp add: severityColor_def js_get_def js_or_def is_markup_def)
  qed
qed

lemma filter_markup_card_shape:
  "filter is_markup (vuln_card n i v) =
     filter is_markup section_open @
     (if n > 1 then filter is_markup issue_1 @ filter is_markup issue_2 @ filter is_markup issue_3
      else []) @
     filter is_markup name_card_1 @ filter is_markup name_card_2 @ filter is_markup name_card_3 @
     (if lineText v \<noteq> [] then filter is_markup location_1 @ filter is_markup location_2 else []) @
     filter is_markup detail_1 @ filter is_markup detail_2 @ filter is_markup detail_3 @
     filter is_markup detail_4 @ filter is_markup detail_5 @ filter is_markup detail_6 @
     filter is_markup detail_7"
  unfolding vuln_card_def
  by (simp only: filter_append filter_markup_escapeHtml filter_markup_decimal
      filter_markup_severityColor append_Nil append_Nil2 if_distrib [of "filter is_markup"]
      filter.simps append_assoc)

lemma filter_markup_card:
  "(lineText v = []) = (lineText v' = []) \<Longrightarrow>
   filter is_markup (vuln_card n i v) = filter is_markup (vuln_card n i v')"
  by (simp only: filter_markup_card_shape)

lemma cards_condition: "(hasVulnerabilities rs \<or> isError rs) = (rs \<noteq> [])"
  by (auto simp: hasVulnerabilities_def isError_def)

lemma filter_markup_cards_aux:
  "map (\<lambda>v. lineText v = []) rs = map (\<lambda>v. lineText v = []) rs' \<Longrightarrow>
   map (\<lambda>(i, v). filter is_markup (vuln_card n i v)) (enumerate k rs) =
   map (\<lambda>(i, v). filter is_markup (vuln_card n i v)) (enumerate k rs')"
proof (induction rs arbitrary: rs' k)
  case Nil
  then show ?case by simp
next
  case (Cons v vs)
  then obtain v' vs' where rs': "rs' = v' # vs'" by (cases rs') auto
  with Cons.prems have hd: "(lineText v = []) = (lineText v' = [])"
    and tl: "map (\<lambda>v. lineText v = []) vs = map (\<lambda>v. lineText v = []) vs'" by auto
  from Cons.IH [OF tl] filter_markup_card [OF hd] rs' show ?case by simp
qed

lemma filter_markup_cardsHtml:
  assumes "map (\<lambda>v. lineText v = []) rs = map (\<lambda>v. lineText v = []) rs'"
  shows "filter is_markup (cardsHtml rs) = filter is_markup (cardsHtml rs')"
proof -
  from assms have len: "length rs = length rs'" by (rule map_eq_imp_length_eq)
  then have empty: "(rs = []) = (rs' = [])" by auto
  have "concat (map (filter is_markup) (map (\<lambda>(i, v). vuln_card (length rs) i v) (enumerate 0 rs))) =
        concat (map (filter is_markup) (map (\<lambda>(i, v). vuln_card (length rs) i v) (enumerate 0 rs')))"
    using filter_markup_cards_aux [OF assms, of "length rs" 0]
    by (simp add: comp_def case_prod_unfold)
  with len empty show ?thesis
    by (simp add: cardsHtml_def cards_condition filter_concat)
qed

lemma filter_markup_headerColor [simp]: "filter is_markup (headerColor rs) = []"
  by (simp add: headerColor_def is_markup_def)

lemma filter_markup_statusIcon [simp]: "filter is_markup (statusIcon rs) = []"
  by (simp add: statusIcon_def icon_error_def icon_warning_def icon_safe_def is_markup_def)

lemma filter_markup_statusText [simp]: "filter is_markup (statusText rs) = []"
proof -
  have plain:
    "filter is_markup ''Analysis Error'' = []"
    "filter is_markup '' '' = []"
    "filter is_markup ''vulnerability'' = []"
    "filter is_markup ''vulnerabilities'' = []"
    "filter is_markup '' detected'' = []"
    "filter is_markup ''No vulnerabilities detected'' = []"
    by (simp_all add: is_markup_def)
  show ?thesis
    unfolding statusText_def
    by (simp only: filter_append filter_markup_decimal plain if_distrib [of "filter is_markup"]
        append_Nil if_cancel)
qed

lemma filter_markup_getResultsHtml:
  assumes "map (\<lambda>v. lineText v = []) (result_list r) = map (\<lambda>v. lineText v = []) (result_list r')"
  shows "filter is_markup (getResultsHtml r) = filter is_markup (getResultsHtml r')"
  unfolding getResultsHtml_def Let_def
  by (simp only: filter_append filter_markup_headerColor filter_markup_statusIcon
      filter_markup_statusText filter_markup_cardsHtml [OF assms])

lemma filter_markup_flat_statusIcon [simp]: "filter is_markup (flat_statusIcon f) = []"
  by (simp add: flat_statusIcon_def flat_icon_error_def flat_icon_warning_def flat_icon_safe_def
      is_markup_def)

lemma filter_markup_flat_statusText [simp]: "filter is_markup (flat_statusText f) = []"
  by (simp add: flat_statusText_def is_markup_def)

lemma filter_markup_flat:
  "filter is_markup (flat_getResultsHtml f) = filter is_markup (flat_getResultsHtml f')"
  unfolding flat_getResultsHtml_def
  by (simp only: filter_append filter_markup_flat_statusIcon filter_markup_flat_statusText
      filter_markup_severityColor filter_markup_escapeHtml)

lemma safe_message_heading: "sublist ''Code Appears Safe'' safe_message"
  unfolding safe_message_def by code_simp

lemma decimal_starts_with_digit: "\<exists>d<10. \<exists>rest. decimal n = digit_char d # rest"
proof (induction n rule: decimal.induct)
  case (1 n)
  show ?case
  proof (cases "n < 10")
    case True
    then have "decimal n = digit_char n # []" by (simp add: decimal.simps [of n])
    with True show ?thesis by blast
  next
    case False
    with 1 obtain d rest where d: "d < 10" "decimal (n div 10) = digit_char d # rest" by blast
    with False have "decimal n = digit_char d # (rest @ [digit_char (n mod 10)])"
      by (simp add: decimal.simps [of n])
    with d(1) show ?thesis by blast
  qed
qed

lemma digit_char_not_A: "d < 10 \<Longrightarrow> digit_char d \<noteq> CHR ''A''"
proof -
  assume "d < 10"
  then have "d \<in> {0, 1, 2, 3, 4, 5, 6, 7, 8, 9}" by auto
  then show ?thesis by (auto simp: digit_char_def)
qed


lemma statusText_error: "(statusText rs = ''Analysis Error'') = isError rs"
proof (cases "isError rs")
  case True
  then show ?thesis by (simp add: statusText_def)
next
  case False
  obtain d rest where d: "d < 10" "decimal (length rs) = digit_char d # rest"
    using decimal_starts_with_digit by blast
  from False d digit_char_not_A [OF d(1)] show ?thesis
    by (simp add: statusText_def del: decimal.simps)
qed


lemma empty_headers:
  "\<not> isError []" "\<not> hasVulnerabilities []"
  by (simp_all add: isError_def hasVulnerabilities_def)

text \<open>
  Claim C2. A response whose \<open>results\<close> is empty (or absent) is rendered as safe: the status
  line is "No vulnerabilities detected", the icon and colour are those of the safe case and
  the cards are the safe message, which holds the heading "Code Appears Safe". A response
  is classified as an error, and shown as "Analysis Error", only when \<open>results\<close> is
  non-empty.
\<close>

theorem empty_results_render_safe:
  "(result_list r = [] \<longrightarrow>
      statusText (result_list r) = ''No vulnerabilities detected'' \<and>
      statusIcon (result_list r) = icon_safe \<and>
      headerColor (result_list r) = ''#22c55e'' \<and>
      cardsHtml (result_list r) = safe_message \<and>
      getResultsHtml r =
        page_1 @ ''#22c55e'' @ page_2 @ icon_safe @ page_3 @ ''No vulnerabilities detected'' @
        page_4 @ safe_message @ page_5) \<and>
   sublist ''Code Appears Safe'' safe_message \<and>
   (isError (result_list r') \<longrightarrow> result_list r' \<noteq> []) \<and>
   (statusText (result_list r') = ''Analysis Error'' \<longrightarrow> result_list r' \<noteq> [])"
proof -
  have a: "result_list r = [] \<longrightarrow>
      statusText (result_list r) = ''No vulnerabilities detected'' \<and>
      statusIcon (result_list r) = icon_safe \<and>
      headerColor (result_list r) = ''#22c55e'' \<and>
      cardsHtml (result_list r) = safe_message \<and>
      getResultsHtml r =
        page_1 @ ''#22c55e'' @ page_2 @ icon_safe @ page_3 @ ''No vulnerabilities detected'' @
        page_4 @ safe_message @ page_5"
    by (simp add: getResultsHtml_def Let_def statusText_def statusIcon_def headerColor_def
        cardsHtml_def empty_headers)
  have b: "isError (result_list r') \<longrightarrow> result_list r' \<noteq> []"
    by (auto simp: isError_def)
  have c: "statusText (result_list r') = ''Analysis Error'' \<longrightarrow> result_list r' \<noteq> []"
    using statusText_error [of "result_list r'"] b by blast
  show ?thesis by (intro conjI a b c safe_message_heading)
qed

theorem empty_results_render_safe_witness:
  "result_list \<lparr>response_language = ''python'', results = Some []\<rparr> = [] \<and>
   getResultsHtml \<lparr>response_language = ''python'', results = Some []\<rparr> =
     page_1 @ ''#22c55e'' @ page_2 @ icon_safe @ page_3 @ ''No vulnerabilities detected'' @
     page_4 @ safe_message @ page_5 \<and>
   result_list \<lparr>response_language = ''python'', results = None\<rparr> = [] \<and>
   statusText (result_list \<lparr>response_language = ''python'', results = None\<rparr>) =
     ''No vulnerabilities detected''"
  using empty_results_render_safe [of "\<lparr>response_language = ''python'', results = Some []\<rparr>"]
    empty_results_render_safe [of "\<lparr>response_language = ''python'', results = None\<rparr>"]
  by (simp add: result_list_def)



text \<open>
  Claim C9. \<open>escapeHtml\<close> of any text holds none of the characters \<open><\<close>, \<open>>\<close> and the two
  quotes. In the rendered page these characters are the same for any two responses with
  the same number of Findings and line numbers on the same Findings, whatever the text of
  their fields: the fields reach the page through \<open>escapeHtml\<close>, a table of colours, or as
  numbers. The same holds for the renderer of src/extension.js and any two Findings.
\<close>

theorem escapeHtml_confines_response_text:
  "filter is_markup (escapeHtml s) = [] \<and>
   (map (\<lambda>v. lineText v = []) (result_list r) = map (\<lambda>v. lineText v = []) (result_list r') \<longrightarrow>
      filter is_markup (getResultsHtml r) = filter is_markup (getResultsHtml r')) \<and>
   filter is_markup (flat_getResultsHtml f) = filter is_markup (flat_getResultsHtml f')"
proof -
  have "map (\<lambda>v. lineText v = []) (result_list r) = map (\<lambda>v. lineText v = []) (result_list r') \<longrightarrow>
      filter is_markup (getResultsHtml r) = filter is_markup (getResultsHtml r')"
    using filter_markup_getResultsHtml [of r r'] by blast
  then show ?thesis
    by (intro conjI filter_markup_escapeHtml filter_markup_flat)
qed

theorem escapeHtml_confines_response_text_witness:
  "map (\<lambda>v. lineText v = []) (result_list demo_hostile) =
     map (\<lambda>v. lineText v = []) (result_list demo_plain) \<and>
   filter is_markup (getResultsHtml demo_hostile) = filter is_markup (getResultsHtml demo_plain) \<and>
   filter is_markup (escapeHtml ''<script>alert(1)</script>'') = []"
proof -
  have shape: "map (\<lambda>v. lineText v = []) (result_list demo_hostile) =
     map (\<lambda>v. lineText v = []) (result_list demo_plain)"
    by (simp add: demo_hostile_def demo_plain_def result_list_def lineText_def)
  from escapeHtml_confines_response_text [of "''<script>alert(1)</script>''" demo_hostile demo_plain]
    shape show ?thesis by blast
qed

section \<open>Properties of the command handler\<close>

lemma trim_plain: "leading_whitespace s = 0 \<Longrightarrow> trailing_whitespace s = 0 \<Longrightarrow> trim s = s"
  by (simp add: trim_def trimStart.simps [of s] trimEnd.simps [of s])

lemma trim_Nil: "trim [] = []"
  by (rule trim_plain) (simp_all add: leading_whitespace_def trailing_whitespace_def js_whitespace_def)

lemma trim_x: "trim ''x = 1'' = ''x = 1''"
  by (rule trim_plain)
     (simp_all add: leading_whitespace_def trailing_whitespace_def js_whitespace_def)

text \<open>
  Claim C1 (not upheld by the code). The claim: for every requested language outside
  python and javascript, the handler signals "not supported" and does not run the engine.
  \<open>languageMap[languageId]\<close> is a property read on an object literal, so a language
  identifier that names a member of \<open>Object.prototype\<close> reads that member, which is
  truthy: for the identifier \<open>constructor\<close> the guard \<open>!language\<close> does not fire, the
  handler goes on to \<open>analyzeCode\<close>, and the first candidate is spawned and written to.
\<close>

theorem inherited_key_reaches_detector:
  "vulnDetection_analyze (Some \<lparr>selectedText = ''x = 1'', languageId = ''constructor''\<rparr>) =
     Analyze ''x = 1'' (Inherited ''constructor'') \<and>
   (\<forall>(h :: 'r host) p.
      io_trace (analyzeCode h p ''x = 1'' (Inherited ''constructor'')) =
        [Spawn ''python'' [path_join h p ''detector.py''],
         StdinWrite 0 (json_stringify h
           [(''code'', Str ''x = 1''), (''language'', Inherited ''constructor'')]),
         StdinEnd 0])"
  by (simp add: vulnDetection_analyze_def trim_x js_get_def languageMap_def
      object_prototype_keys_def analyzeCode_def tryPythonCommand_def pythonCommands_def Let_def)

text \<open>
  The part of claim C1 that the code upholds. With a selection that is not blank, every
  language identifier that is neither a key of \<open>languageMap\<close> nor the name of a member
  of \<open>Object.prototype\<close> ends the handler with the "not supported" warning: nothing is
  analysed, spawned or rendered.
\<close>

theorem unsupported_language_warns:
  assumes "trim (selectedText ed) \<noteq> []"
    and "languageId ed \<notin> set (map fst languageMap)"
    and "languageId ed \<notin> set object_prototype_keys"
  shows "vulnDetection_analyze (Some ed) =
         Done (ShowWarningMessage
           (''Language '' @ [CHR 0x22] @ languageId ed @ [CHR 0x22] @
            '' is not supported. Only Python and JavaScript are currently supported.''))"
proof -
  from assms(1) have sel: "selectedText ed \<noteq> []" using trim_Nil by auto
  from assms(2) have "map_of languageMap (languageId ed) = None"
    by (simp add: map_of_eq_None_iff)
  with assms sel show ?thesis
    by (simp add: vulnDetection_analyze_def js_get_def)
qed

text \<open>
  The other side of the guard. With a selection that is not blank, a language identifier
  that is a key of \<open>languageMap\<close> sends the selection to \<open>analyzeCode\<close> with the mapped
  language, which is \<open>python\<close> or \<open>javascript\<close>.
\<close>

theorem supported_language_analyzed:
  assumes "trim (selectedText ed) \<noteq> []"
    and "map_of languageMap (languageId ed) = Some l"
  shows "vulnDetection_analyze (Some ed) = Analyze (selectedText ed) (Str l) \<and>
         (l = ''python'' \<or> l = ''javascript'')"
proof -
  from assms(1) have sel: "selectedText ed \<noteq> []" using trim_Nil by auto
  from assms(2) have "(languageId ed, l) \<in> set languageMap" by (rule map_of_SomeD)
  then have l: "l = ''python'' \<or> l = ''javascript''" by (auto simp: languageMap_def)
  with assms sel show ?thesis
    by (auto simp add: vulnDetection_analyze_def js_get_def)
qed

theorem unsupported_language_warns_witness:
  \<open>trim ''x = 1'' \<noteq> [] \<and>
   ''ruby'' \<notin> set (map fst languageMap) \<and>
   ''ruby'' \<notin> set object_prototype_keys \<and>
   vulnDetection_analyze (Some \<lparr>selectedText = ''x = 1'', languageId = ''ruby''\<rparr>) =
     Done (ShowWarningMessage
       ''Language "ruby" is not supported. Only Python and JavaScript are currently supported.'')\<close>
proof -
  have a: "trim (selectedText \<lparr>selectedText = ''x = 1'', languageId = ''ruby''\<rparr>) \<noteq> []"
    by (simp add: trim_x)
  have b: "languageId \<lparr>selectedText = ''x = 1'', languageId = ''ruby''\<rparr> \<notin> set (map fst languageMap)"
    by (simp add: languageMap_def)
  have c: "languageId \<lparr>selectedText = ''x = 1'', languageId = ''ruby''\<rparr> \<notin> set object_prototype_keys"
    by (simp add: object_prototype_keys_def)
  from unsupported_language_warns [OF a b c] a b c show ?thesis by simp
qed

theorem supported_language_analyzed_witness:
  "trim ''x = 1'' \<noteq> [] \<and>
   map_of languageMap ''typescript'' = Some ''javascript'' \<and>
   vulnDetection_analyze (Some \<lparr>selectedText = ''x = 1'', languageId = ''typescript''\<rparr>) =
     Analyze ''x = 1'' (Str ''javascript'')"
proof -
  have a: "trim (selectedText \<lparr>selectedText = ''x = 1'', languageId = ''typescript''\<rparr>) \<noteq> []"
    by (simp add: trim_x)
  have b: "map_of languageMap (languageId \<lparr>selectedText = ''x = 1'', languageId = ''typescript''\<rparr>) =
      Some ''javascript''"
    by (simp add: languageMap_def)
  from supported_language_analyzed [OF a b] a b show ?thesis by simp
qed

section \<open>Properties of the launcher\<close>



lemma on_close_settles:
  "settle_calls (on_close h exitCode a s) =
   settle_calls s @ [close_outcome h exitCode (stdout a) (stderr a)]"
  by (simp add: on_close_def close_outcome_def resolve_def reject_def split: option.splits)



lemma attempt_io_cong:
  "attempt_index (as ! pid) = attempt_index (bs ! pid) \<Longrightarrow>
   attempt_io h commands dp code language as pid = attempt_io h commands dp code language bs pid"
  by (simp add: attempt_io_def)

lemma io_matches_update:
  assumes "io_matches h commands dp code language s" "pid < length (attempts s)"
    "attempt_index a = attempt_index (attempts s ! pid)"
  shows "io_matches h commands dp code language (s\<lparr>attempts := (attempts s)[pid := a]\<rparr>)"
proof -
  have eq: "map (attempt_io h commands dp code language ((attempts s)[pid := a])) [0..<length (attempts s)] =
        map (attempt_io h commands dp code language (attempts s)) [0..<length (attempts s)]"
    using assms(2,3) by (intro map_cong refl attempt_io_cong) (simp add: nth_list_update)
  from assms(1) have "io_trace s =
      concat (map (attempt_io h commands dp code language (attempts s)) [0..<length (attempts s)])"
    by (simp add: io_matches_def)
  then show ?thesis by (simp add: io_matches_def eq)
qed

lemma io_matches_tryPythonCommand:
  assumes "io_matches h commands dp code language s"
  shows "io_matches h commands dp code language (tryPythonCommand h commands index dp code language s)"
proof (cases "index \<ge> length commands")
  case True
  with assms show ?thesis by (simp add: tryPythonCommand_def reject_def io_matches_def)
next
  case False
  let ?a = "\<lparr>attempt_index = index, stdout = [], stderr = []\<rparr>"
  have eq: "map (attempt_io h commands dp code language (attempts s @ [?a])) [0..<length (attempts s)] =
        map (attempt_io h commands dp code language (attempts s)) [0..<length (attempts s)]"
    by (intro map_cong refl attempt_io_cong) (simp add: nth_append)
  have last: "attempt_io h commands dp code language (attempts s @ [?a]) (length (attempts s)) =
        [Spawn (commands ! index) [dp],
         StdinWrite (length (attempts s))
           (json_stringify h [(''code'', Str code), (''language'', language)]),
         StdinEnd (length (attempts s))]"
    by (simp add: attempt_io_def)
  from assms have "io_trace s =
      concat (map (attempt_io h commands dp code language (attempts s)) [0..<length (attempts s)])"
    by (simp add: io_matches_def)
  with False show ?thesis
    by (simp add: tryPythonCommand_def io_matches_def Let_def eq last)
qed

lemma io_matches_on_close:
  "io_matches h commands dp code language s \<Longrightarrow>
   io_matches h commands dp code language (on_close h exitCode a s)"
  by (simp add: on_close_def resolve_def reject_def io_matches_def split: option.splits)

lemma io_matches_deliver:
  assumes "io_matches h commands dp code language s"
  shows "io_matches h commands dp code language (deliver h commands dp code language e s)"
proof (cases "fst e \<ge> length (attempts s)")
  case True
  with assms show ?thesis by (simp add: deliver_def)
next
  case False
  then have lt: "fst e < length (attempts s)" by simp
  show ?thesis
  proof (cases "snd e")
    case (StdoutData d)
    with lt io_matches_update [OF assms lt] show ?thesis by (simp add: deliver_def Let_def)
  next
    case (StderrData d)
    with lt io_matches_update [OF assms lt] show ?thesis by (simp add: deliver_def Let_def)
  next
    case ErrorEvent
    with lt io_matches_tryPythonCommand [OF assms] show ?thesis by (simp add: deliver_def Let_def)
  next
    case (CloseEvent c)
    with lt io_matches_on_close [OF assms] show ?thesis by (simp add: deliver_def Let_def)
  qed
qed

lemma io_matches_fold:
  "io_matches h commands dp code language s \<Longrightarrow>
   io_matches h commands dp code language (fold (deliver h commands dp code language) es s)"
  by (induction es arbitrary: s) (simp_all add: io_matches_deliver)

lemma io_matches_analyzeCode:
  "io_matches h pythonCommands (path_join h p ''detector.py'') code language
     (analyzeCode h p code language)"
  by (simp add: analyzeCode_def tryPythonCommand_def pythonCommands_def io_matches_def Let_def
      attempt_io_def)

lemma first_tryPythonCommand:
  assumes "attempts s \<noteq> []" "attempt_index (attempts s ! 0) = 0"
  shows "attempts (tryPythonCommand h commands index dp code language s) \<noteq> [] \<and>
         attempt_index (attempts (tryPythonCommand h commands index dp code language s) ! 0) = 0"
  using assms by (simp add: tryPythonCommand_def reject_def Let_def nth_append)

lemma first_on_close:
  assumes "attempts s \<noteq> []" "attempt_index (attempts s ! 0) = 0"
  shows "attempts (on_close h exitCode a s) \<noteq> [] \<and>
         attempt_index (attempts (on_close h exitCode a s) ! 0) = 0"
  using assms by (simp add: on_close_def resolve_def reject_def split: option.splits)

lemma first_update:
  assumes "attempts s \<noteq> []" "attempt_index (attempts s ! 0) = 0" "pid < length (attempts s)"
    "attempt_index a = attempt_index (attempts s ! pid)"
  shows "attempts (s\<lparr>attempts := (attempts s)[pid := a]\<rparr>) \<noteq> [] \<and>
         attempt_index (attempts (s\<lparr>attempts := (attempts s)[pid := a]\<rparr>) ! 0) = 0"
  using assms by (cases pid) (simp_all add: nth_list_update)

lemma first_deliver:
  assumes "attempts s \<noteq> []" "attempt_index (attempts s ! 0) = 0"
  shows "attempts (deliver h commands dp code language e s) \<noteq> [] \<and>
         attempt_index (attempts (deliver h commands dp code language e s) ! 0) = 0"
proof (cases "fst e \<ge> length (attempts s)")
  case True
  with assms show ?thesis by (simp add: deliver_def)
next
  case False
  then have lt: "fst e < length (attempts s)" by simp
  show ?thesis
  proof (cases "snd e")
    case (StdoutData d)
    with lt first_update [OF assms lt] show ?thesis by (simp add: deliver_def Let_def)
  next
    case (StderrData d)
    with lt first_update [OF assms lt] show ?thesis by (simp add: deliver_def Let_def)
  next
    case ErrorEvent
    with lt first_tryPythonCommand [OF assms] show ?thesis by (simp add: deliver_def Let_def)
  next
    case (CloseEvent c)
    with lt first_on_close [OF assms] show ?thesis by (simp add: deliver_def Let_def)
  qed
qed

lemma first_fold:
  "attempts s \<noteq> [] \<Longrightarrow> attempt_index (attempts s ! 0) = 0 \<Longrightarrow>
   attempts (fold (deliver h commands dp code language) es s) \<noteq> [] \<and>
   attempt_index (attempts (fold (deliver h commands dp code language) es s) ! 0) = 0"
proof (induction es arbitrary: s)
  case Nil
  then show ?case by simp
next
  case (Cons e es)
  from first_deliver [OF Cons.prems, of h commands dp code language e]
  have "attempts (deliver h commands dp code language e s) \<noteq> []"
    and "attempt_index (attempts (deliver h commands dp code language e s) ! 0) = 0"
    by simp_all
  from Cons.IH [OF this] show ?case by simp
qed

lemma first_run:
  "attempts (run h p code language es) \<noteq> [] \<and>
   attempt_index (attempts (run h p code language es) ! 0) = 0"
  unfolding run_def
  by (rule first_fold)
     (simp_all add: analyzeCode_def tryPythonCommand_def pythonCommands_def Let_def)

text \<open>
  Claim C6. Whatever events arrive, every request spawns at least one process, and what
  the launcher does begins with: spawn \<open>python\<close> with the detector's path, write the
  request payload to its standard input, end that stream. All that the launcher does to
  the processes of one request is, for each process in spawn order: spawn it with the
  detector's path, write the request payload to its standard input once, end that stream.
  The payload is \<open>JSON.stringify\<close> of the object with the two fields \<open>code\<close> and
  \<open>language\<close>, in this order.
\<close>

theorem one_payload_per_process:
  "1 \<le> length (attempts (run h p code language es)) \<and>
   take 3 (io_trace (run h p code language es)) =
     [Spawn ''python'' [path_join h p ''detector.py''],
      StdinWrite 0 (json_stringify h [(''code'', Str code), (''language'', language)]),
      StdinEnd 0] \<and>
   io_trace (run h p code language es) =
   concat (map (\<lambda>pid.
       [Spawn (pythonCommands ! attempt_index (attempts (run h p code language es) ! pid))
          [path_join h p ''detector.py''],
        StdinWrite pid (json_stringify h [(''code'', Str code), (''language'', language)]),
        StdinEnd pid])
     [0..<length (attempts (run h p code language es))])"
proof -
  let ?s = "run h p code language es"
  let ?f = "attempt_io h pythonCommands (path_join h p ''detector.py'') code language (attempts ?s)"
  from first_run [of h p code language es]
  have ne: "attempts ?s \<noteq> []" and zero: "attempt_index (attempts ?s ! 0) = 0" by simp_all
  from ne have n: "1 \<le> length (attempts ?s)" by (cases "attempts ?s") simp_all
  have all: "io_trace ?s = concat (map ?f [0..<length (attempts ?s)])"
    using io_matches_fold [OF io_matches_analyzeCode, of h p code language es]
    by (simp add: run_def io_matches_def)
  from ne have "0 < length (attempts ?s)" by simp
  then have "[0..<length (attempts ?s)] = 0 # [1..<length (attempts ?s)]"
    by (simp only: upt_conv_Cons One_nat_def)
  then have "io_trace ?s = ?f 0 @ concat (map ?f [1..<length (attempts ?s)])"
    using all by simp
  then have "take 3 (io_trace ?s) = ?f 0" by (simp add: attempt_io_def)
  then have first: "take 3 (io_trace ?s) =
     [Spawn ''python'' [path_join h p ''detector.py''],
      StdinWrite 0 (json_stringify h [(''code'', Str code), (''language'', language)]),
      StdinEnd 0]"
    by (simp add: attempt_io_def zero pythonCommands_def)
  from all have whole: "io_trace ?s =
   concat (map (\<lambda>pid.
       [Spawn (pythonCommands ! attempt_index (attempts ?s ! pid)) [path_join h p ''detector.py''],
        StdinWrite pid (json_stringify h [(''code'', Str code), (''language'', language)]),
        StdinEnd pid])
     [0..<length (attempts ?s)])"
    by (simp add: attempt_io_def [abs_def])
  show ?thesis by (intro conjI n first whole)
qed

lemma close_outcome_not_installed: "close_outcome h exitCode out err \<noteq> Rejected not_installed"
  by (simp add: close_outcome_def not_installed_def split: option.splits)

lemma chain_data:
  assumes inv: "chain_invariant commands s E T" and lt: "pid < length (attempts s)"
    and a: "attempt_index a = attempt_index (attempts s ! pid)"
  shows "chain_invariant commands (s\<lparr>attempts := (attempts s)[pid := a]\<rparr>) E T"
proof -
  have "map attempt_index ((attempts s)[pid := a]) = map attempt_index (attempts s)"
    using lt a by (simp add: map_update list_update_same_conv)
  with inv show ?thesis by (simp add: chain_invariant_def)
qed

lemma chain_close:
  assumes inv: "chain_invariant commands s E T" and lt: "pid < length (attempts s)"
  shows "chain_invariant commands (on_close h exitCode a s) E (insert pid T)"
  using inv lt close_outcome_not_installed [of h exitCode "stdout a" "stderr a"]
  by (simp add: chain_invariant_def on_close_settles)
     (simp add: on_close_def resolve_def reject_def split: option.splits)

lemma chain_error:
  assumes inv: "chain_invariant commands s E T" and lt: "pid < length (attempts s)"
    and fresh: "pid \<notin> E"
  shows "chain_invariant commands
           (tryPythonCommand h commands (attempt_index (attempts s ! pid) + 1) dp code language s)
           (insert pid E) (insert pid T)"
proof -
  let ?n = "length (attempts s)"
  from inv have sub: "{i. Suc i < ?n} \<subseteq> E" and idx: "map attempt_index (attempts s) = [0..<?n]"
    and le: "?n \<le> length commands" and E: "E \<subseteq> {..<?n}" and T: "T \<subseteq> {..<?n}"
    and cnt: "length (filter (\<lambda>x. x = Rejected not_installed) (settle_calls s)) =
        (if ?n - 1 \<in> E then 1 else 0)"
    by (simp_all add: chain_invariant_def)
  from sub fresh have "\<not> Suc pid < ?n" by auto
  with lt have pid: "pid = ?n - 1" "Suc pid = ?n" by simp_all
  have "attempt_index (attempts s ! pid) = pid"
    using idx lt by (metis nth_map nth_upt add_0)
  then have index: "attempt_index (attempts s ! pid) + 1 = ?n" using pid by simp
  from fresh pid have notE: "?n - 1 \<notin> E" by simp
  then have cnt0: "filter (\<lambda>x. x = Rejected not_installed) (settle_calls s) = []"
    using cnt by simp
  have E': "insert pid E \<subseteq> {..<?n}" and T': "insert pid T \<subseteq> {..<?n}"
    using E T lt by auto
  have sub': "{i. Suc i < ?n} \<subseteq> insert pid E" using sub by auto
  show ?thesis
  proof (cases "?n \<ge> length commands")
    case True
    then have step: "tryPythonCommand h commands (attempt_index (attempts s ! pid) + 1) dp code language s =
        reject not_installed s"
      by (simp only: index tryPythonCommand_def if_True)
    from True le have eq: "?n = length commands" by simp
    have last: "?n - 1 \<in> insert pid E" using pid by simp
    have "chain_invariant commands (reject not_installed s) (insert pid E) (insert pid T)"
      unfolding chain_invariant_def
      using lt le idx E' T' sub' eq last cnt0 by (simp add: reject_def)
    with step show ?thesis by simp
  next
    case False
    let ?s' = "s\<lparr>attempts := attempts s @ [\<lparr>attempt_index = ?n, stdout = [], stderr = []\<rparr>],
              io_trace := io_trace s @
                [Spawn (commands ! ?n) [dp],
                 StdinWrite ?n (json_stringify h [(''code'', Str code), (''language'', language)]),
                 StdinEnd ?n]\<rparr>"
    from False have step: "tryPythonCommand h commands (attempt_index (attempts s ! pid) + 1) dp code language s = ?s'"
      by (simp only: index tryPythonCommand_def Let_def if_False)
    have nT: "?n \<notin> insert pid T" and nE: "?n \<notin> insert pid E" using T E lt by auto
    have subs: "{i. i < ?n} \<subseteq> insert pid E"
    proof
      fix i assume "i \<in> {i. i < ?n}"
      then have "Suc i < ?n \<or> i = pid" using pid by auto
      with sub show "i \<in> insert pid E" by auto
    qed
    have E'': "insert pid E \<subseteq> {..<Suc ?n}" and T'': "insert pid T \<subseteq> {..<Suc ?n}"
      using E T lt by auto
    have "chain_invariant commands ?s' (insert pid E) (insert pid T)"
      unfolding chain_invariant_def
      using False nT nE subs cnt0 E'' T'' idx
      by simp
    with step show ?thesis by simp
  qed
qed

lemma chain_deliver:
  assumes inv: "chain_invariant commands s E T" and lt: "fst e < length (attempts s)"
    and fresh: "\<not> (snd e = ErrorEvent \<and> fst e \<in> E)"
  shows "chain_invariant commands (deliver h commands dp code language e s)
           (if snd e = ErrorEvent then insert (fst e) E else E)
           (if is_terminal (snd e) then insert (fst e) T else T)"
proof (cases "snd e")
  case (StdoutData d)
  with lt chain_data [OF inv lt] show ?thesis by (simp add: deliver_def Let_def)
next
  case (StderrData d)
  with lt chain_data [OF inv lt] show ?thesis by (simp add: deliver_def Let_def)
next
  case ErrorEvent
  with fresh have "fst e \<notin> E" by simp
  from chain_error [OF inv lt this] ErrorEvent lt show ?thesis by (simp add: deliver_def Let_def)
next
  case (CloseEvent c)
  with lt chain_close [OF inv lt] show ?thesis by (simp add: deliver_def Let_def)
qed

lemma chain_fold:
  assumes "chain_invariant commands s (set errored) T"
    and "admissible h commands dp code language s errored es"
  shows "chain_invariant commands (fold (deliver h commands dp code language) es s)
           (set errored \<union> set (error_pids es)) (T \<union> set (terminal_pids es))"
  using assms
proof (induction es arbitrary: s errored T)
  case Nil
  then show ?case by (simp add: error_pids_def terminal_pids_def)
next
  case (Cons e es)
  let ?s' = "deliver h commands dp code language e s"
  let ?errored' = "if snd e = ErrorEvent then fst e # errored else errored"
  let ?T' = "if is_terminal (snd e) then insert (fst e) T else T"
  from Cons.prems(2) have lt: "fst e < length (attempts s)"
    and fresh: "\<not> (snd e = ErrorEvent \<and> fst e \<in> set errored)"
    and adm: "admissible h commands dp code language ?s' ?errored' es" by simp_all
  have "chain_invariant commands ?s' (set ?errored') ?T'"
    using chain_deliver [OF Cons.prems(1) lt fresh, of h dp code language]
    by (cases "snd e = ErrorEvent") simp_all
  from Cons.IH [OF this adm]
  have "chain_invariant commands (fold (deliver h commands dp code language) es ?s')
          (set ?errored' \<union> set (error_pids es)) (?T' \<union> set (terminal_pids es))" .
  moreover have "set ?errored' \<union> set (error_pids es) = set errored \<union> set (error_pids (e # es))"
    by (auto simp: error_pids_def)
  moreover have "?T' \<union> set (terminal_pids es) = T \<union> set (terminal_pids (e # es))"
    by (auto simp: terminal_pids_def)
  ultimately show ?case by simp
qed

lemma chain_analyzeCode:
  "chain_invariant pythonCommands (analyzeCode h p code language) {} {}"
  by (simp add: analyzeCode_def tryPythonCommand_def pythonCommands_def chain_invariant_def Let_def)

lemma terminated_iff: "terminated es pid = (pid \<in> set (terminal_pids es))"
  by (auto simp: terminated_def terminal_pids_def list_ex_iff)

lemma promise_settled: "(promise s \<noteq> None) = (settle_calls s \<noteq> [])"
  by (simp add: promise_def split: list.splits)

lemma spawned_attempt_io:
  "spawned (concat (map (attempt_io h commands dp code language as) pids)) =
   map (\<lambda>pid. commands ! attempt_index (as ! pid)) pids"
  by (induction pids) (simp_all add: attempt_io_def)

lemma chain_run:
  assumes "admissible h pythonCommands (path_join h p ''detector.py'') code language
             (analyzeCode h p code language) [] es"
  shows "chain_invariant pythonCommands (run h p code language es)
           (set (error_pids es)) (set (terminal_pids es))"
  using chain_fold [OF _ assms, of "{}"] chain_analyzeCode [of h p code language]
  by (simp add: run_def)

text \<open>
  Claim C10. When every event comes from a spawned process and no process emits \<open>error\<close>
  twice: at most three processes are spawned, the k-th of them for the candidate of index
  k (each failed attempt advances the index by one), and once every spawned process has
  emitted \<open>error\<close> or \<open>close\<close> the promise is settled. A call whose index has reached
  the number of commands spawns nothing and rejects.
\<close>

theorem retry_chain_terminates:
  assumes "admissible h pythonCommands (path_join h p ''detector.py'') code language
             (analyzeCode h p code language) [] es"
  shows "length (spawned (io_trace (run h p code language es))) \<le> length pythonCommands \<and>
         length pythonCommands = 3 \<and>
         map attempt_index (attempts (run h p code language es)) =
           [0..<length (spawned (io_trace (run h p code language es)))] \<and>
         (list_all (terminated es) [0..<length (attempts (run h p code language es))] \<longrightarrow>
          promise (run h p code language es) \<noteq> None) \<and>
         (length commands \<le> index \<longrightarrow>
          tryPythonCommand h commands index detectorPath code language s =
            reject not_installed s)"
proof -
  let ?s = "run h p code language es"
  have guard: "length commands \<le> index \<longrightarrow>
      tryPythonCommand h commands index detectorPath code language s = reject not_installed s"
    by (simp add: tryPythonCommand_def)
  have inv: "chain_invariant pythonCommands ?s (set (error_pids es)) (set (terminal_pids es))"
    using chain_run [OF assms] .
  have "io_matches h pythonCommands (path_join h p ''detector.py'') code language ?s"
    unfolding run_def by (rule io_matches_fold [OF io_matches_analyzeCode])
  then have n: "length (spawned (io_trace ?s)) = length (attempts ?s)"
    by (simp add: io_matches_def spawned_attempt_io)
  have settled: "promise ?s \<noteq> None" if all: "list_all (terminated es) [0..<length (attempts ?s)]"
  proof -
    from inv have "1 \<le> length (attempts ?s)" by (simp add: chain_invariant_def)
    with all have "terminated es (length (attempts ?s) - 1)" by (simp add: list_all_iff)
    then have "length (attempts ?s) - 1 \<in> set (terminal_pids es)" by (simp add: terminated_iff)
    with inv have "settle_calls ?s \<noteq> []" by (simp add: chain_invariant_def)
    then show ?thesis unfolding promise_settled .
  qed
  from inv settled n
  have "length (spawned (io_trace ?s)) \<le> length pythonCommands \<and>
        length pythonCommands = 3 \<and>
        map attempt_index (attempts ?s) = [0..<length (spawned (io_trace ?s))] \<and>
        (list_all (terminated es) [0..<length (attempts ?s)] \<longrightarrow> promise ?s \<noteq> None)"
    by (simp add: chain_invariant_def) (simp add: pythonCommands_def)
  with guard show ?thesis by blast
qed

lemma demo_admissible:
  "admissible demo_host pythonCommands (path_join demo_host ''/ext'' ''detector.py'') ''x = 1''
     (Str ''python'') (analyzeCode demo_host ''/ext'' ''x = 1'' (Str ''python'')) [] demo_events"
  by (simp add: demo_events_def analyzeCode_def tryPythonCommand_def pythonCommands_def
      deliver_def on_close_def reject_def resolve_def demo_host_def Let_def)

theorem retry_chain_terminates_witness:
  "admissible demo_host pythonCommands (path_join demo_host ''/ext'' ''detector.py'') ''x = 1''
     (Str ''python'') (analyzeCode demo_host ''/ext'' ''x = 1'' (Str ''python'')) [] demo_events \<and>
   length (spawned (io_trace (run demo_host ''/ext'' ''x = 1'' (Str ''python'') demo_events))) \<le> 3 \<and>
   list_all (terminated demo_events)
     [0..<length (attempts (run demo_host ''/ext'' ''x = 1'' (Str ''python'') demo_events))] \<and>
   promise (run demo_host ''/ext'' ''x = 1'' (Str ''python'') demo_events) \<noteq> None"
proof -
  have len: "length (attempts (run demo_host ''/ext'' ''x = 1'' (Str ''python'') demo_events)) = 2"
    by (simp add: run_def demo_events_def analyzeCode_def tryPythonCommand_def pythonCommands_def
      deliver_def on_close_def reject_def resolve_def demo_host_def Let_def)
  have all: "list_all (terminated demo_events) [0..<2]"
    by (simp add: terminated_def demo_events_def upt_rec)
  from retry_chain_terminates [OF demo_admissible, where commands = "[]" and index = 0
      and detectorPath = "[]" and s = "analyzeCode demo_host ''/ext'' ''x = 1'' (Str ''python'')"]
    demo_admissible len all show ?thesis
    by simp
qed



lemma on_close_frame:
  "io_trace (on_close h exitCode a s) = io_trace s"
  "attempts (on_close h exitCode a s) = attempts s"
  by (simp_all add: on_close_def resolve_def reject_def split: option.splits)

lemma exit_code_text_minus_2: "exit_code_text (Some (- 2)) = ''-2''"
  by (simp add: exit_code_text_def number_text_def digit_char_def decimal.simps)

lemma failed_spawn_close:
  "close_outcome h (Some (- 2)) out [] = Rejected ''Detector exited with code -2: ''"
  by (simp add: close_outcome_def exit_code_text_minus_2)

text \<open>
  Claim C5 (not upheld by the code). The claim: the launcher advances to the next candidate
  when spawning the current one errors, and rejects, with the "not installed" message,
  precisely when every candidate has failed. Node.js emits \<open>close\<close> after \<open>error\<close> for
  a process that failed to spawn, with the negative error number as exit code (-2 for
  ENOENT), and the \<open>close\<close> handler is registered on every process. So when \<open>python\<close>
  is missing and \<open>python3\<close> is spawned, runs and answers with exit code 0, the promise is
  already rejected with "Detector exited with code -2: ": the request fails although a
  candidate has not failed.
\<close>

theorem close_after_error_settles_first:
  "\<forall>(h :: 'r host) p code language out.
      spawned (io_trace (run h p code language
        [(0, ErrorEvent), (0, CloseEvent (Some (- 2))),
         (1, StdoutData out), (1, CloseEvent (Some 0))])) = [''python'', ''python3''] \<and>
      settle_calls (run h p code language
        [(0, ErrorEvent), (0, CloseEvent (Some (- 2))),
         (1, StdoutData out), (1, CloseEvent (Some 0))]) =
        [Rejected ''Detector exited with code -2: '', close_outcome h (Some 0) out []] \<and>
      promise (run h p code language
        [(0, ErrorEvent), (0, CloseEvent (Some (- 2))),
         (1, StdoutData out), (1, CloseEvent (Some 0))]) =
        Some (Rejected ''Detector exited with code -2: '') \<and>
      Rejected ''Detector exited with code -2: '' \<noteq> (Rejected not_installed :: 'r settlement)"
  by (simp add: run_def analyzeCode_def tryPythonCommand_def pythonCommands_def
      deliver_def on_close_frame on_close_settles failed_spawn_close reject_def promise_def
      Let_def not_installed_def)

text \<open>
  The part of claim C5 about the end of the list, on the order in which the events of three
  failed spawns arrive (the three \<open>error\<close> events, then the three \<open>close\<close> events): the
  promise is rejected with the "not installed" message.
\<close>

theorem all_candidates_missing:
  "\<forall>(h :: 'r host) p code language.
      settle_calls (run h p code language
        [(0, ErrorEvent), (1, ErrorEvent), (2, ErrorEvent),
         (0, CloseEvent (Some (- 2))), (1, CloseEvent (Some (- 2))),
         (2, CloseEvent (Some (- 2)))]) =
        [Rejected not_installed, Rejected ''Detector exited with code -2: '',
         Rejected ''Detector exited with code -2: '', Rejected ''Detector exited with code -2: ''] \<and>
      promise (run h p code language
        [(0, ErrorEvent), (1, ErrorEvent), (2, ErrorEvent),
         (0, CloseEvent (Some (- 2))), (1, CloseEvent (Some (- 2))),
         (2, CloseEvent (Some (- 2)))]) = Some (Rejected not_installed)"
  by (simp add: run_def analyzeCode_def tryPythonCommand_def pythonCommands_def
      deliver_def on_close_frame on_close_settles failed_spawn_close reject_def promise_def
      Let_def)

lemma chain_cases:
  assumes "chain_invariant commands s E T"
  shows "(length (attempts s) - 1 \<notin> E \<and> E = {..<length (attempts s) - 1}) \<or>
         (length (attempts s) - 1 \<in> E \<and> E = {..<length commands} \<and>
          length (attempts s) = length commands)"
proof -
  let ?n = "length (attempts s)"
  from assms have n: "1 \<le> ?n" and E: "E \<subseteq> {..<?n}" and sub: "{i. Suc i < ?n} \<subseteq> E"
    and full: "?n - 1 \<in> E \<longrightarrow> ?n = length commands"
    by (simp_all add: chain_invariant_def)
  show ?thesis
  proof (cases "?n - 1 \<in> E")
    case True
    have "E = {..<?n}"
    proof
      show "E \<subseteq> {..<?n}" by (rule E)
      show "{..<?n} \<subseteq> E"
      proof
        fix i assume "i \<in> {..<?n}"
        then have "Suc i < ?n \<or> i = ?n - 1" by auto
        with sub True show "i \<in> E" by auto
      qed
    qed
    with True full show ?thesis by simp
  next
    case False
    have "E = {..<?n - 1}"
    proof
      show "E \<subseteq> {..<?n - 1}"
      proof
        fix i assume i: "i \<in> E"
        with E have "i < ?n" by auto
        moreover from i False have "i \<noteq> ?n - 1" by auto
        ultimately show "i \<in> {..<?n - 1}" by simp
      qed
      show "{..<?n - 1} \<subseteq> E" using sub by auto
    qed
    with False show ?thesis by simp
  qed
qed

lemma map_nth_take: "n \<le> length xs \<Longrightarrow> map ((!) xs) [0..<n] = take n xs"
  by (simp add: list_eq_iff_nth_eq)

lemma spawned_run:
  assumes "admissible h pythonCommands (path_join h p ''detector.py'') code language
             (analyzeCode h p code language) [] es"
  shows "spawned (io_trace (run h p code language es)) =
         take (length (attempts (run h p code language es))) pythonCommands"
proof -
  let ?s = "run h p code language es"
  let ?n = "length (attempts ?s)"
  from chain_run [OF assms] have idx: "map attempt_index (attempts ?s) = [0..<?n]"
    and le: "?n \<le> length pythonCommands" by (simp_all add: chain_invariant_def)
  have "io_matches h pythonCommands (path_join h p ''detector.py'') code language ?s"
    unfolding run_def by (rule io_matches_fold [OF io_matches_analyzeCode])
  then have "spawned (io_trace ?s) =
      map (\<lambda>pid. pythonCommands ! attempt_index (attempts ?s ! pid)) [0..<?n]"
    by (simp add: io_matches_def spawned_attempt_io)
  also have "\<dots> = map (\<lambda>pid. pythonCommands ! pid) [0..<?n]"
  proof (rule map_cong [OF refl])
    fix pid assume "pid \<in> set [0..<?n]"
    then have "pid < ?n" by simp
    then have "attempt_index (attempts ?s ! pid) = pid"
      using idx by (metis nth_map nth_upt add_0)
    then show "pythonCommands ! attempt_index (attempts ?s ! pid) = pythonCommands ! pid" by simp
  qed
  also have "\<dots> = take ?n pythonCommands"
    using le by (rule map_nth_take)
  finally show ?thesis .
qed

text \<open>
  The part of claim C5 that the code upholds, on the calls the launcher makes. When every
  event comes from a spawned process and no process emits \<open>error\<close> twice, the commands
  spawned are \<open>python\<close>, \<open>python3\<close>, \<open>py\<close> in this order, one more than the processes
  that have emitted \<open>error\<close> and at most three; and \<open>reject\<close> is called with the
  "not installed" message once when all three processes have emitted \<open>error\<close>, and never
  otherwise.
\<close>

theorem candidates_tried_in_order:
  assumes "admissible h pythonCommands (path_join h p ''detector.py'') code language
             (analyzeCode h p code language) [] es"
  shows "spawned (io_trace (run h p code language es)) =
           take (Suc (card (set (error_pids es)))) [''python'', ''python3'', ''py''] \<and>
         length (filter (\<lambda>x. x = Rejected not_installed)
           (settle_calls (run h p code language es))) =
           (if set (error_pids es) = {0, 1, 2} then 1 else 0)"
proof -
  let ?s = "run h p code language es"
  let ?n = "length (attempts ?s)"
  let ?E = "set (error_pids es)"
  have inv: "chain_invariant pythonCommands ?s ?E (set (terminal_pids es))"
    using chain_run [OF assms] .
  then have n: "1 \<le> ?n" "?n \<le> 3"
    and cnt: "length (filter (\<lambda>x. x = Rejected not_installed) (settle_calls ?s)) =
        (if ?n - 1 \<in> ?E then 1 else 0)"
    by (simp_all add: chain_invariant_def pythonCommands_def)
  have three: "{..<(3::nat)} = {0, 1, 2}" by auto
  from chain_cases [OF inv]
  have "take ?n pythonCommands = take (Suc (card ?E)) pythonCommands \<and>
        (?n - 1 \<in> ?E) = (?E = {0, 1, 2})"
  proof
    assume a: "?n - 1 \<notin> ?E \<and> ?E = {..<?n - 1}"
    then have "card ?E = ?n - 1" by simp
    with n have "Suc (card ?E) = ?n" by simp
    moreover have "?E \<noteq> {0, 1, 2}"
    proof
      assume "?E = {0, 1, 2}"
      with a have "{..<?n - 1} = {..<(3::nat)}" using three by simp
      then have "?n - 1 = 3" by (simp only: lessThan_eq_iff)
      with n show False by simp
    qed
    ultimately show ?thesis using a by simp
  next
    assume a: "?n - 1 \<in> ?E \<and> ?E = {..<length pythonCommands} \<and> ?n = length pythonCommands"
    have len3: "length pythonCommands = 3" by (simp add: pythonCommands_def)
    from a have "?n = 3" by (simp only: len3)
    moreover from a have "?E = {0, 1, 2}" by (simp only: len3 three)
    moreover from this have "card ?E = 3" by simp
    ultimately show ?thesis using a by (simp add: pythonCommands_def)
  qed
  with spawned_run [OF assms] cnt show ?thesis by (simp add: pythonCommands_def)
qed

theorem candidates_tried_in_order_witness:
  "admissible demo_host pythonCommands (path_join demo_host ''/ext'' ''detector.py'') ''x = 1''
     (Str ''python'') (analyzeCode demo_host ''/ext'' ''x = 1'' (Str ''python'')) [] demo_events \<and>
   spawned (io_trace (run demo_host ''/ext'' ''x = 1'' (Str ''python'') demo_events)) =
     [''python'', ''python3''] \<and>
   length (filter (\<lambda>x. x = Rejected not_installed)
     (settle_calls (run demo_host ''/ext'' ''x = 1'' (Str ''python'') demo_events))) = 0"
proof -
  have E: "set (error_pids demo_events) = {0}"
    by (simp add: error_pids_def demo_events_def)
  have ne: "{0::nat} \<noteq> {0, 1, 2}" by auto
  from candidates_tried_in_order [OF demo_admissible] demo_admissible show ?thesis
    by (simp only: E ne if_False) simp
qed

section \<open>Properties of the scan engine as specified\<close>

lemma ranks_before_total: "ranks_before code a b \<or> ranks_before code b a"
  by (auto simp: ranks_before_def)

lemma ranks_before_trans:
  "ranks_before code a b \<Longrightarrow> ranks_before code b c \<Longrightarrow> ranks_before code a c"
  by (auto simp: ranks_before_def)

lemma set_insert_ranked: "set (insert_ranked code c cs) = insert c (set cs)"
  by (induction cs) auto

lemma mset_insert_ranked: "mset (insert_ranked code c cs) = add_mset c (mset cs)"
  by (induction cs) auto

lemma sorted_insert_ranked:
  "sorted_wrt (ranks_before code) cs \<Longrightarrow> sorted_wrt (ranks_before code) (insert_ranked code c cs)"
proof (induction cs)
  case Nil
  then show ?case by simp
next
  case (Cons d ds)
  show ?case
  proof (cases "ranks_before code c d")
    case True
    with Cons.prems show ?thesis by (auto intro: ranks_before_trans)
  next
    case False
    with ranks_before_total [of code c d] have "ranks_before code d c" by blast
    with False Cons show ?thesis by (auto simp: set_insert_ranked)
  qed
qed

lemma sorted_sort_ranked: "sorted_wrt (ranks_before code) (sort_ranked code cs)"
  by (induction cs) (simp_all add: sorted_insert_ranked)

lemma mset_sort_ranked: "mset (sort_ranked code cs) = mset cs"
  by (induction cs) (simp_all add: mset_insert_ranked)

lemma severity_of_finding:
  "severity (to_finding code c) = severity_text (rule_severity (from_rule c))"
  by (simp add: to_finding_def)

text \<open>
  Claim C7, settled on the engine as the specification describes it. The Findings of a
  response are the candidates that survive exclusion and deduplication, none lost or added,
  in an order where each one ranks before every later one: higher severity first, then
  smaller first line, then earlier rule declaration.
\<close>

theorem findings_ranked:
  "sorted_wrt (ranks_before code) (ranked_candidates catalog code l) \<and>
   mset (ranked_candidates catalog code l) =
     mset (dedupe (filter (accepted code) (concat (map (matches_of code) (rulesFor catalog l))))) \<and>
   (case language_of language of
      None \<Rightarrow> analyze catalog code language = UnsupportedLanguage
    | Some l' \<Rightarrow> analyze catalog code language =
        Response \<lparr>response_language = language,
                  results = Some (map (to_finding code) (ranked_candidates catalog code l'))\<rparr>)"
  by (simp add: ranked_candidates_def sorted_sort_ranked mset_sort_ranked analyze_def
      split: option.splits)

end
